theory Spec2Isabelle
  imports Main "HOL-Library.Sublist"
begin

section \<open>Data model (types.ts)\<close>

text \<open>
  JavaScript strings are modelled as \<open>string\<close>, one \<open>char\<close> per code unit (the Latin-1
  range). The three \<open>id\<close> fields of the source are named \<open>img_id\<close>, \<open>panel_id\<close> and
  \<open>char_id\<close>, since record fields share one name space and \<open>id\<close> is the identity
  function of HOL.
\<close>

record ComicImage =
  img_id :: string
  url :: string
  prompt :: string

datatype PanelSplitLayout =
  SINGLE | DOUBLE_V | DOUBLE_H | TRIPLE_V | TRIPLE_H | QUAD
  | BIG_LEFT | BIG_RIGHT | BIG_TOP | BIG_BOTTOM

datatype AspectRatio = AR_1_1 | AR_16_9 | AR_9_16

datatype OverlayType =
  NONE | BUBBLE_LEFT | BUBBLE_RIGHT | THOUGHT | WHISPER | SHOUT | CAPTION_BOX | ONOMATOPOEIA

record ComicPanel =
  panel_id :: string
  images :: "ComicImage list"
  splitLayout :: PanelSplitLayout
  caption :: string
  aspectRatio :: AspectRatio
  colSpan :: nat
  overlayType :: OverlayType

datatype GenerationMode = CREATE | EDIT | STORY

record LoadingState =
  isLoading :: bool
  message :: string

datatype ComicStyle =
  MODERN | SUPERHERO | MANGA | GHIBLI | NOIR | RETRO | CYBERPUNK | FANTASY | HORROR
  | SKETCH | WATERCOLOR

datatype GridLayout = STANDARD | CLASSIC | VERTICAL | DYNAMIC | STORYBOARD

datatype GutterSize = GUTTER_NONE | TINY | SMALL | MEDIUM | LARGE | HUGE

record Character =
  char_id :: string
  name :: string
  description :: string

section \<open>Application state (the useState cells of App)\<close>

text \<open>
  What a call of the generation gateway (services/geminiService.ts) is asked to do.
\<close>

datatype GatewayCall =
  GenerateComicImage string AspectRatio
  | GenerateImageFromSketch string string
  | EditComicImage string string

text \<open>
  The first eight fields are the state cells of \<open>App\<close>. The last three record what the
  handlers do to the world around them: \<open>uuidCount\<close> counts the calls of \<open>uuidv4\<close> made so
  far, \<open>alerts\<close> lists the messages shown with \<open>alert\<close>, oldest first, and \<open>gatewayCalls\<close>
  lists the gateway calls started, oldest first.
\<close>

record AppState =
  panels :: "ComicPanel list"
  selectedPanelId :: "string option"
  activeSlotId :: "string option"
  mode :: GenerationMode
  gridLayout :: GridLayout
  gutterSize :: GutterSize
  characters :: "Character list"
  loadingState :: LoadingState
  uuidCount :: nat
  alerts :: "string list"
  gatewayCalls :: "GatewayCall list"

definition initialState :: AppState where
  "initialState =
     \<lparr>panels = [], selectedPanelId = None, activeSlotId = None, mode = CREATE,
      gridLayout = STANDARD, gutterSize = MEDIUM, characters = [],
      loadingState = \<lparr>isLoading = False, message = []\<rparr>,
      uuidCount = 0, alerts = [], gatewayCalls = []\<rparr>"

text \<open>
  \<open>uuidv4\<close> is a library function: its \<open>k\<close>-th call returns \<open>gen k\<close>, for a source
  \<open>gen\<close> of identifiers that every handler drawing identifiers takes as a parameter.
\<close>

type_synonym uuid_source = "nat \<Rightarrow> string"

section \<open>Layout resolver: handleChangeSplitLayout\<close>

text \<open>
  The slot count of a layout as the three \<open>if\<close> statements of the handler compute it,
  starting from \<open>targetCount = 1\<close>.
\<close>

definition targetCount :: "PanelSplitLayout \<Rightarrow> nat" where
  "targetCount newLayout =
     (let t0 = 1;
          t1 = (if List.member [DOUBLE_V, DOUBLE_H] newLayout then 2 else t0);
          t2 = (if List.member [TRIPLE_V, TRIPLE_H, BIG_LEFT, BIG_RIGHT, BIG_TOP, BIG_BOTTOM]
                     newLayout then 3 else t1);
          t3 = (if newLayout = QUAD then 4 else t2)
      in t3)"

text \<open>
  The table of section 4.1 of the specification, written from its words, to compare with
  \<open>targetCount\<close>.
\<close>

fun slotCount :: "PanelSplitLayout \<Rightarrow> nat" where
  "slotCount SINGLE = 1"
| "slotCount DOUBLE_V = 2"
| "slotCount DOUBLE_H = 2"
| "slotCount TRIPLE_V = 3"
| "slotCount TRIPLE_H = 3"
| "slotCount BIG_LEFT = 3"
| "slotCount BIG_RIGHT = 3"
| "slotCount BIG_TOP = 3"
| "slotCount BIG_BOTTOM = 3"
| "slotCount QUAD = 4"

definition emptySlot :: "string \<Rightarrow> ComicImage" where
  "emptySlot i = \<lparr>img_id = i, url = [], prompt = []\<rparr>"

text \<open>
  The loop \<open>for (let i = 0; i < needed; i++) newImages.push({ id: uuidv4(), url: '', prompt: '' })\<close>,
  on the slot list and the number of identifiers drawn so far.
\<close>

fun pushEmptySlots :: "uuid_source \<Rightarrow> nat \<Rightarrow> ComicImage list \<times> nat \<Rightarrow> ComicImage list \<times> nat" where
  "pushEmptySlots gen 0 (newImages, n) = (newImages, n)"
| "pushEmptySlots gen (Suc needed) (newImages, n) =
     pushEmptySlots gen needed (newImages @ [emptySlot (gen n)], Suc n)"

text \<open>The function that the handler maps over the previous panel list.\<close>

definition changeSplitLayoutOf ::
  "uuid_source \<Rightarrow> string \<Rightarrow> PanelSplitLayout \<Rightarrow> ComicPanel \<Rightarrow> nat \<Rightarrow> ComicPanel \<times> nat" where
  "changeSplitLayoutOf gen panelId newLayout panel n =
     (if panel_id panel \<noteq> panelId then (panel, n)
      else
        let newImages = images panel;
            tc = targetCount newLayout;
            (newImages', n') =
               (if length newImages < tc
                then pushEmptySlots gen (tc - length newImages) (newImages, n)
                else if length newImages > tc then (take tc newImages, n)
                else (newImages, n))
        in (panel\<lparr>splitLayout := newLayout, images := newImages'\<rparr>, n'))"

text \<open>\<open>prev.map(f)\<close> for an \<open>f\<close> that draws identifiers: the panels are visited in order.\<close>

fun mapPanels ::
  "(ComicPanel \<Rightarrow> nat \<Rightarrow> ComicPanel \<times> nat) \<Rightarrow> ComicPanel list \<Rightarrow> nat \<Rightarrow> ComicPanel list \<times> nat" where
  "mapPanels f [] n = ([], n)"
| "mapPanels f (p # ps) n =
     (case f p n of (p', n') \<Rightarrow>
        (case mapPanels f ps n' of (ps', n'') \<Rightarrow> (p' # ps', n'')))"

definition handleChangeSplitLayout ::
  "uuid_source \<Rightarrow> string \<Rightarrow> PanelSplitLayout \<Rightarrow> AppState \<Rightarrow> AppState" where
  "handleChangeSplitLayout gen panelId newLayout st =
     (case mapPanels (changeSplitLayoutOf gen panelId newLayout) (panels st) (uuidCount st) of
        (ps, n) \<Rightarrow> st\<lparr>panels := ps, uuidCount := n\<rparr>)"

section \<open>JavaScript values and string methods\<close>

text \<open>
  A value of type \<open>string | null\<close> or \<open>string | undefined\<close> is a \<open>string option\<close>. In a
  condition it counts as true when it is a string other than the empty one.
\<close>

fun truthy :: "string option \<Rightarrow> bool" where
  "truthy None = False"
| "truthy (Some s) = (s \<noteq> [])"

text \<open>
  \<open>String.prototype.trim\<close> removes white space and line terminators from both ends; in
  the Latin-1 range these are TAB, LF, VT, FF, CR, SPACE and NBSP.
\<close>

definition isWhiteSpace :: "char \<Rightarrow> bool" where
  "isWhiteSpace c =
     List.member [CHR 0x09, CHR 0x0A, CHR 0x0B, CHR 0x0C, CHR 0x0D, CHR 0x20, CHR 0xA0] c"

definition trim :: "string \<Rightarrow> string" where
  "trim s = rev (dropWhile isWhiteSpace (rev (dropWhile isWhiteSpace s)))"

text \<open>\<open>Array.prototype.join\<close> on an array of strings.\<close>

fun join :: "string \<Rightarrow> string list \<Rightarrow> string" where
  "join sep [] = []"
| "join sep [x] = x"
| "join sep (x # y # ys) = x @ sep @ join sep (y # ys)"

text \<open>\<open>String.prototype.toLowerCase\<close> in the Latin-1 range.\<close>

definition lowerChar :: "char \<Rightarrow> char" where
  "lowerChar c =
     (let n = (of_char c :: nat)
      in if (65 \<le> n \<and> n \<le> 90) \<or> (192 \<le> n \<and> n \<le> 222 \<and> n \<noteq> 215)
         then char_of (n + 32) else c)"

definition toLowerCase :: "string \<Rightarrow> string" where
  "toLowerCase s = map lowerChar s"

text \<open>\<open>s.replace(a, b)\<close> for one-character strings \<open>a\<close> and \<open>b\<close>: the first \<open>a\<close> only.\<close>

fun replaceChar :: "char \<Rightarrow> char \<Rightarrow> string \<Rightarrow> string" where
  "replaceChar a b [] = []"
| "replaceChar a b (c # cs) = (if c = a then b # cs else c # replaceChar a b cs)"

section \<open>Prompt composer\<close>

definition getCharacterContextString :: "Character list \<Rightarrow> string" where
  "getCharacterContextString chars =
     (if length chars = 0 then []
      else join ''. '' (map (\<lambda>c. trim (name c) @ '': '' @ trim (description c)) chars))"

fun getStylePrompt :: "ComicStyle \<Rightarrow> string" where
  "getStylePrompt MODERN =
     ''modern comic book style, crisp lines, vibrant colors, digital art''"
| "getStylePrompt SUPERHERO =
     ''classic american superhero comic style, marvel style, dynamic action poses, bold colors, detailed muscle anatomy, cinematic composition''"
| "getStylePrompt MANGA =
     ''manga style, anime aesthetic, expressive characters, detailed ink lines, screentones''"
| "getStylePrompt GHIBLI =
     ''studio ghibli style, hayao miyazaki art style, beautiful painted backgrounds, whimsical, soft colors, highly detailed nature''"
| "getStylePrompt NOIR =
     ''film noir style, high contrast black and white comic, dramatic shadows, mysterious atmosphere, frank miller style''"
| "getStylePrompt RETRO =
     ''vintage 1950s comic style, halftone dots, retro color palette, aged paper texture, golden age comics''"
| "getStylePrompt CYBERPUNK =
     ''cyberpunk style, neon lights, futuristic city, high tech, rain-slicked streets, vibrant neon colors''"
| "getStylePrompt FANTASY =
     ''fantasy comic style, oil painting aesthetic, epic lighting, dungeons and dragons art style''"
| "getStylePrompt HORROR =
     ''horror comic style, junji ito style, eerie atmosphere, dark gritty details, high contrast''"
| "getStylePrompt SKETCH =
     ''rough sketch comic style, pencil textures, loose lines, charcoal, artistic unfinished look''"
| "getStylePrompt WATERCOLOR =
     ''watercolor comic style, artistic, soft edges, bleeding colors, dreamlike atmosphere''"

text \<open>A style is its own tag as a string.\<close>

fun styleTag :: "ComicStyle \<Rightarrow> string" where
  "styleTag MODERN = ''MODERN''"
| "styleTag SUPERHERO = ''SUPERHERO''"
| "styleTag MANGA = ''MANGA''"
| "styleTag GHIBLI = ''GHIBLI''"
| "styleTag NOIR = ''NOIR''"
| "styleTag RETRO = ''RETRO''"
| "styleTag CYBERPUNK = ''CYBERPUNK''"
| "styleTag FANTASY = ''FANTASY''"
| "styleTag HORROR = ''HORROR''"
| "styleTag SKETCH = ''SKETCH''"
| "styleTag WATERCOLOR = ''WATERCOLOR''"

text \<open>
  The lines of the template literal of \<open>handleGenerate\<close> start with six spaces, and the
  closing back quote stands after a line break and four spaces.
\<close>

definition lineBreak :: string where
  "lineBreak = CHR 0x0A # ''      ''"

definition rosterClause :: "string \<Rightarrow> string" where
  "rosterClause characterContext =
     (if characterContext \<noteq> []
      then ''Defined Characters (MUST MATCH EXACTLY): '' @ characterContext @ ''.''
      else [])"

definition fullPrompt :: "Character list \<Rightarrow> string \<Rightarrow> ComicStyle \<Rightarrow> string" where
  "fullPrompt chars prompt' style =
     (let stylePrompt = getStylePrompt style;
          characterContext = getCharacterContextString chars
      in trim (lineBreak @ ''Art Style: '' @ stylePrompt @ ''.''
            @ lineBreak @ rosterClause characterContext
            @ lineBreak @ ''Scene Description: '' @ prompt' @ ''.''
            @ lineBreak @ ''(Ensure consistent character details). high quality masterpiece.''
            @ CHR 0x0A # ''    ''))"

definition fullEditPrompt :: "Character list \<Rightarrow> string \<Rightarrow> string" where
  "fullEditPrompt chars editPrompt =
     (let characterContext = getCharacterContextString chars
      in if characterContext \<noteq> []
         then ''Edit Instruction: '' @ editPrompt @ ''. (Maintain character consistency: ''
              @ characterContext @ '')''
         else editPrompt)"

section \<open>Generation gateway (services/geminiService.ts)\<close>

text \<open>
  The answer of the external service to one request: the promise of the SDK is rejected, or
  resolved with a response. Of a response the gateway reads one path only, so a response
  is modelled by what stands at that path: the \<open>imageBytes\<close> of the first generated image
  (\<open>None\<close> when any link of \<open>response.generatedImages?.[0]?.image?.imageBytes\<close> is
  missing), and the parts of the first candidate (\<open>None\<close> when any link of
  \<open>response.candidates?.[0]?.content?.parts\<close> is missing).
\<close>

datatype 'a outcome = Rejected | Resolved 'a

datatype InlineData = InlineData (inlineData_data: "string option")

datatype Part = Part (inlineData: "InlineData option")

type_synonym GenerateImagesResponse = "string option"

type_synonym GenerateContentResponse = "Part list option"

record Sdk =
  generateImages :: "GenerateImagesResponse outcome"
  generateContent :: "GenerateContentResponse outcome"

datatype error =
  ApiError
  | NoImageGenerated
  | NoContentInResponse
  | NoImageDataInSketchResponse
  | NoImageDataInEditResponse

definition generateComicImage :: "GenerateImagesResponse outcome \<Rightarrow> error + string" where
  "generateComicImage response =
     (case response of
        Rejected \<Rightarrow> Inl ApiError
      | Resolved base64ImageBytes \<Rightarrow>
          if \<not> truthy base64ImageBytes then Inl NoImageGenerated
          else Inr (''data:image/jpeg;base64,'' @ the base64ImageBytes))"

text \<open>
  The loop over the parts of a response: the first part whose inline data is a non-empty
  string gives the image; the result is the empty string when there is none.
\<close>

fun firstImagePart :: "Part list \<Rightarrow> string" where
  "firstImagePart [] = []"
| "firstImagePart (part # parts) =
     (case inlineData part of
        None \<Rightarrow> firstImagePart parts
      | Some d \<Rightarrow>
          if truthy (inlineData_data d)
          then ''data:image/png;base64,'' @ the (inlineData_data d)
          else firstImagePart parts)"

definition imageOfContent :: "error \<Rightarrow> GenerateContentResponse outcome \<Rightarrow> error + string" where
  "imageOfContent noData response =
     (case response of
        Rejected \<Rightarrow> Inl ApiError
      | Resolved None \<Rightarrow> Inl NoContentInResponse
      | Resolved (Some parts) \<Rightarrow>
          (let newImageBase64 = firstImagePart parts
           in if newImageBase64 = [] then Inl noData else Inr newImageBase64))"

definition generateImageFromSketch :: "GenerateContentResponse outcome \<Rightarrow> error + string" where
  "generateImageFromSketch response = imageOfContent NoImageDataInSketchResponse response"

definition editComicImage :: "GenerateContentResponse outcome \<Rightarrow> error + string" where
  "editComicImage response = imageOfContent NoImageDataInEditResponse response"

section \<open>Handlers of App\<close>

text \<open>
  A handler is a closure of the render in which it was created: what it reads of
  \<open>panels\<close>, \<open>selectedPanelId\<close>, \<open>activeSlotId\<close>, \<open>mode\<close> and \<open>characters\<close> is the state of
  that render, the argument \<open>cl\<close>. What it writes goes to the store \<open>st\<close>:
  \<open>setX(v)\<close> stores \<open>v\<close>, and \<open>setPanels(prev => f(prev))\<close> applies \<open>f\<close> to the panels
  of the store at that moment. For a handler that runs to its end at once, as the
  synchronous ones do, \<open>cl\<close> and \<open>st\<close> are the same state.
\<close>

definition idle :: LoadingState where
  "idle = \<lparr>isLoading = False, message = []\<rparr>"

definition selectedPanel :: "AppState \<Rightarrow> ComicPanel option" where
  "selectedPanel st = find (\<lambda>p. Some (panel_id p) = selectedPanelId st) (panels st)"

subsection \<open>handleGenerate\<close>

text \<open>The part of \<open>handleGenerate\<close> before its \<open>await\<close>: the loading flag and the request.\<close>

definition handleGenerate_request ::
  "AppState \<Rightarrow> string \<Rightarrow> ComicStyle \<Rightarrow> string option \<Rightarrow> GatewayCall" where
  "handleGenerate_request cl prompt' style sketchBase64 =
     (if truthy sketchBase64
      then GenerateImageFromSketch (the sketchBase64) (fullPrompt (characters cl) prompt' style)
      else GenerateComicImage (fullPrompt (characters cl) prompt' style) AR_1_1)"

definition handleGenerate_start ::
  "AppState \<Rightarrow> string \<Rightarrow> ComicStyle \<Rightarrow> string option \<Rightarrow> AppState \<Rightarrow> AppState" where
  "handleGenerate_start cl prompt' style sketchBase64 st =
     st\<lparr>loadingState :=
          \<lparr>isLoading = True,
           message = (if truthy sketchBase64 then ''Transforming sketch...''
                      else ''Generating '' @ replaceChar CHR ''_'' CHR '' '' (toLowerCase (styleTag style))
                           @ '' art...'')\<rparr>,
        gatewayCalls := gatewayCalls st @ [handleGenerate_request cl prompt' style sketchBase64]\<rparr>"

text \<open>What the awaited gateway call gives: the image, or the error it throws.\<close>

definition handleGenerate_await :: "string option \<Rightarrow> Sdk \<Rightarrow> error + string" where
  "handleGenerate_await sketchBase64 sdk =
     (if truthy sketchBase64 then generateImageFromSketch (generateContent sdk)
      else generateComicImage (generateImages sdk))"

text \<open>The part of the \<open>try\<close> block after the \<open>await\<close>.\<close>

definition handleGenerate_apply ::
  "uuid_source \<Rightarrow> AppState \<Rightarrow> string \<Rightarrow> string \<Rightarrow> AppState \<Rightarrow> AppState" where
  "handleGenerate_apply gen cl prompt' imageUrl st =
     (if truthy (selectedPanelId cl) \<and> truthy (activeSlotId cl)
      then
        (case find (\<lambda>p. Some (panel_id p) = selectedPanelId cl) (panels cl) of
           None \<Rightarrow> st
         | Some panel \<Rightarrow>
             let updatedImages =
                   map (\<lambda>img. if Some (img_id img) = activeSlotId cl
                               then img\<lparr>url := imageUrl, prompt := prompt'\<rparr> else img)
                       (images panel)
             in st\<lparr>panels :=
                    map (\<lambda>p. if Some (panel_id p) = selectedPanelId cl
                              then p\<lparr>images := updatedImages\<rparr> else p)
                        (panels st)\<rparr>)
      else
        let newPanel =
              \<lparr>panel_id = gen (uuidCount st),
               images = [\<lparr>img_id = gen (Suc (uuidCount st)), url = imageUrl, prompt = prompt'\<rparr>],
               splitLayout = SINGLE, caption = [], aspectRatio = AR_1_1, colSpan = 1,
               overlayType = NONE\<rparr>
        in st\<lparr>panels := panels st @ [newPanel], uuidCount := uuidCount st + 2\<rparr>)"

text \<open>From the \<open>await\<close> to the end: \<open>try\<close>, \<open>catch\<close> and \<open>finally\<close>.\<close>

definition handleGenerate_finish ::
  "uuid_source \<Rightarrow> AppState \<Rightarrow> string \<Rightarrow> error + string \<Rightarrow> AppState \<Rightarrow> AppState" where
  "handleGenerate_finish gen cl prompt' result st =
     (case result of
        Inl e \<Rightarrow>
          st\<lparr>alerts := alerts st @ [''Failed to generate image. Please try again.''],
             loadingState := idle\<rparr>
      | Inr imageUrl \<Rightarrow> (handleGenerate_apply gen cl prompt' imageUrl st)\<lparr>loadingState := idle\<rparr>)"

text \<open>The whole call, when nothing else happens while the request is pending.\<close>

definition handleGenerate ::
  "uuid_source \<Rightarrow> string \<Rightarrow> ComicStyle \<Rightarrow> string option \<Rightarrow> Sdk \<Rightarrow> AppState \<Rightarrow> AppState" where
  "handleGenerate gen prompt' style sketchBase64 sdk st =
     handleGenerate_finish gen st prompt' (handleGenerate_await sketchBase64 sdk)
       (handleGenerate_start st prompt' style sketchBase64 st)"

subsection \<open>handleEdit\<close>

text \<open>The two guards at the head of \<open>handleEdit\<close>.\<close>

datatype EditGuard = NothingSelected | NoImageInSlot | EditTarget ComicPanel ComicImage

definition handleEdit_guard :: "AppState \<Rightarrow> EditGuard" where
  "handleEdit_guard cl =
     (case selectedPanel cl of
        None \<Rightarrow> NothingSelected
      | Some sp \<Rightarrow>
          if \<not> truthy (activeSlotId cl) then NothingSelected
          else
            (case find (\<lambda>img. Some (img_id img) = activeSlotId cl) (images sp) of
               None \<Rightarrow> NoImageInSlot
             | Some activeImage \<Rightarrow>
                 if url activeImage = [] then NoImageInSlot else EditTarget sp activeImage))"

definition handleEdit_start :: "AppState \<Rightarrow> string \<Rightarrow> AppState \<Rightarrow> AppState" where
  "handleEdit_start cl editPrompt st =
     (case handleEdit_guard cl of
        NothingSelected \<Rightarrow> st
      | NoImageInSlot \<Rightarrow>
          st\<lparr>alerts := alerts st @ [''Please select a slot with an image to edit.'']\<rparr>
      | EditTarget sp activeImage \<Rightarrow>
          st\<lparr>loadingState := \<lparr>isLoading = True, message = ''Editing panel...''\<rparr>,
             gatewayCalls := gatewayCalls st
               @ [EditComicImage (url activeImage) (fullEditPrompt (characters cl) editPrompt)]\<rparr>)"

definition handleEdit_finish :: "AppState \<Rightarrow> error + string \<Rightarrow> AppState \<Rightarrow> AppState" where
  "handleEdit_finish cl result st =
     (case handleEdit_guard cl of
        NothingSelected \<Rightarrow> st
      | NoImageInSlot \<Rightarrow> st
      | EditTarget sp activeImage \<Rightarrow>
          (case result of
             Inl e \<Rightarrow>
               st\<lparr>alerts := alerts st @ [''Failed to edit image. Make sure your prompt is clear.''],
                  loadingState := idle\<rparr>
           | Inr newImageUrl \<Rightarrow>
               let updatedImages =
                     map (\<lambda>img. if Some (img_id img) = activeSlotId cl
                                 then img\<lparr>url := newImageUrl\<rparr> else img)
                         (images sp)
               in st\<lparr>panels :=
                      map (\<lambda>p. if panel_id p = panel_id sp then p\<lparr>images := updatedImages\<rparr> else p)
                          (panels st),
                    loadingState := idle\<rparr>))"

definition handleEdit :: "string \<Rightarrow> Sdk \<Rightarrow> AppState \<Rightarrow> AppState" where
  "handleEdit editPrompt sdk st =
     handleEdit_finish st (editComicImage (generateContent sdk)) (handleEdit_start st editPrompt st)"

subsection \<open>Selection\<close>

definition handlePanelSelect :: "AppState \<Rightarrow> string \<Rightarrow> AppState \<Rightarrow> AppState" where
  "handlePanelSelect cl id' st =
     (if selectedPanelId cl \<noteq> Some id'
      then
        (let st1 = st\<lparr>selectedPanelId := Some id'\<rparr>
         in case find (\<lambda>p. panel_id p = id') (panels cl) of
              None \<Rightarrow> st1
            | Some panel \<Rightarrow>
                (case images panel of
                   [] \<Rightarrow> st1
                 | img # _ \<Rightarrow> st1\<lparr>activeSlotId := Some (img_id img)\<rparr>))
      else st)"

definition handleSlotSelect :: "AppState \<Rightarrow> string \<Rightarrow> string \<Rightarrow> AppState \<Rightarrow> AppState" where
  "handleSlotSelect cl panelId imageId st =
     (let st1 = st\<lparr>selectedPanelId := Some panelId, activeSlotId := Some imageId\<rparr>;
          panel = find (\<lambda>p. panel_id p = panelId) (panels cl);
          image = (case panel of
                     None \<Rightarrow> None
                   | Some p \<Rightarrow> find (\<lambda>img. img_id img = imageId) (images p))
      in case image of
           None \<Rightarrow> st1
         | Some img \<Rightarrow>
             if url img = [] then st1\<lparr>mode := CREATE\<rparr>
             else if mode cl = CREATE then st1\<lparr>mode := EDIT\<rparr>
             else st1)"

subsection \<open>Single-panel field replacements and deletion\<close>

definition handleUpdateCaption :: "string \<Rightarrow> string \<Rightarrow> AppState \<Rightarrow> AppState" where
  "handleUpdateCaption id' caption' st =
     st\<lparr>panels := map (\<lambda>p. if panel_id p = id' then p\<lparr>caption := caption'\<rparr> else p) (panels st)\<rparr>"

definition handleToggleOverlay :: "string \<Rightarrow> OverlayType \<Rightarrow> AppState \<Rightarrow> AppState" where
  "handleToggleOverlay id' type' st =
     st\<lparr>panels := map (\<lambda>p. if panel_id p = id' then p\<lparr>overlayType := type'\<rparr> else p) (panels st)\<rparr>"

definition handleUpdatePanelSpan :: "string \<Rightarrow> nat \<Rightarrow> AppState \<Rightarrow> AppState" where
  "handleUpdatePanelSpan id' span st =
     st\<lparr>panels := map (\<lambda>p. if panel_id p = id' then p\<lparr>colSpan := span\<rparr> else p) (panels st)\<rparr>"

definition handleDeletePanel :: "AppState \<Rightarrow> string \<Rightarrow> AppState \<Rightarrow> AppState" where
  "handleDeletePanel cl id' st =
     (let st1 = st\<lparr>panels := filter (\<lambda>p. panel_id p \<noteq> id') (panels st)\<rparr>
      in if selectedPanelId cl = Some id'
         then st1\<lparr>selectedPanelId := None, activeSlotId := None\<rparr>
         else st1)"

section \<open>Toolbox (components/Toolbox.tsx)\<close>

text \<open>
  The effect of \<open>Toolbox\<close> with the dependency \<open>selectedPanel?.id\<close>. It runs after a render
  whose selected panel has another identifier than that of the render before; \<open>prior\<close> is
  the state of the render before and \<open>st\<close> the state rendered now.
\<close>

definition toolboxEffect :: "AppState \<Rightarrow> AppState \<Rightarrow> AppState" where
  "toolboxEffect prior st =
     (if map_option panel_id (selectedPanel st) \<noteq> map_option panel_id (selectedPanel prior)
      then
        (case selectedPanel st of
           None \<Rightarrow> st
         | Some sp \<Rightarrow> if mode st \<noteq> STORY then st\<lparr>mode := EDIT\<rparr> else st)
      else st)"

section \<open>User events\<close>

text \<open>
  A click on a slot of a panel card calls \<open>onSelect(panel.id)\<close> and then
  \<open>onSelectSlot(panel.id, img.id)\<close>, both closures of the render that is on screen; the
  state they leave is rendered, and the effect of \<open>Toolbox\<close> runs.
\<close>

definition slotClick :: "string \<Rightarrow> string \<Rightarrow> AppState \<Rightarrow> AppState" where
  "slotClick panelId imageId st =
     toolboxEffect st (handleSlotSelect st panelId imageId (handlePanelSelect st panelId st))"

definition panelClick :: "string \<Rightarrow> AppState \<Rightarrow> AppState" where
  "panelClick panelId st = toolboxEffect st (handlePanelSelect st panelId st)"

definition setMode :: "GenerationMode \<Rightarrow> AppState \<Rightarrow> AppState" where
  "setMode m st = st\<lparr>mode := m\<rparr>"

subsection \<open>The roster handlers and the setters of Toolbox\<close>

datatype CharacterField = Name | Description

definition handleAddCharacter :: "uuid_source \<Rightarrow> AppState \<Rightarrow> AppState \<Rightarrow> AppState" where
  "handleAddCharacter gen cl st =
     st\<lparr>characters := characters cl
          @ [\<lparr>char_id = gen (uuidCount st), name = [], description = []\<rparr>],
        uuidCount := Suc (uuidCount st)\<rparr>"

definition handleUpdateCharacter ::
  "AppState \<Rightarrow> string \<Rightarrow> CharacterField \<Rightarrow> string \<Rightarrow> AppState \<Rightarrow> AppState" where
  "handleUpdateCharacter cl id' field val st =
     st\<lparr>characters :=
          map (\<lambda>c. if char_id c = id'
                    then (case field of Name \<Rightarrow> c\<lparr>name := val\<rparr>
                          | Description \<Rightarrow> c\<lparr>description := val\<rparr>)
                    else c)
              (characters cl)\<rparr>"

definition handleRemoveCharacter :: "AppState \<Rightarrow> string \<Rightarrow> AppState \<Rightarrow> AppState" where
  "handleRemoveCharacter cl id' st =
     st\<lparr>characters := filter (\<lambda>c. char_id c \<noteq> id') (characters cl)\<rparr>"

definition setGridLayout :: "GridLayout \<Rightarrow> AppState \<Rightarrow> AppState" where
  "setGridLayout g st = st\<lparr>gridLayout := g\<rparr>"

definition setGutterSize :: "GutterSize \<Rightarrow> AppState \<Rightarrow> AppState" where
  "setGutterSize g st = st\<lparr>gutterSize := g\<rparr>"

section \<open>Runs in which every request ends before the next event\<close>

text \<open>
  The states that the application reaches from the empty store when each handler runs to
  its end, the gateway's answer included, before the next event: the closure of a handler
  and the store are then the same state. After each event the state is rendered and the
  effect of \<open>Toolbox\<close> runs.
\<close>

inductive reachable :: "uuid_source \<Rightarrow> AppState \<Rightarrow> bool" for gen :: uuid_source where
  initial: "reachable gen initialState"
| generate: "reachable gen st \<Longrightarrow>
     reachable gen (toolboxEffect st (handleGenerate gen prompt' style sketchBase64 sdk st))"
| edit: "reachable gen st \<Longrightarrow> reachable gen (toolboxEffect st (handleEdit editPrompt sdk st))"
| panel_click: "reachable gen st \<Longrightarrow> reachable gen (panelClick panelId st)"
| slot_click: "reachable gen st \<Longrightarrow> reachable gen (slotClick panelId imageId st)"
| caption: "reachable gen st \<Longrightarrow>
     reachable gen (toolboxEffect st (handleUpdateCaption panelId caption' st))"
| overlay: "reachable gen st \<Longrightarrow>
     reachable gen (toolboxEffect st (handleToggleOverlay panelId type' st))"
| span: "reachable gen st \<Longrightarrow>
     reachable gen (toolboxEffect st (handleUpdatePanelSpan panelId n st))"
| delete: "reachable gen st \<Longrightarrow>
     reachable gen (toolboxEffect st (handleDeletePanel st panelId st))"
| layout: "reachable gen st \<Longrightarrow>
     reachable gen (toolboxEffect st (handleChangeSplitLayout gen panelId newLayout st))"
| set_mode: "reachable gen st \<Longrightarrow> reachable gen (toolboxEffect st (setMode m st))"
| set_grid: "reachable gen st \<Longrightarrow> reachable gen (toolboxEffect st (setGridLayout g st))"
| set_gutter: "reachable gen st \<Longrightarrow> reachable gen (toolboxEffect st (setGutterSize gs st))"
| add_character: "reachable gen st \<Longrightarrow>
     reachable gen (toolboxEffect st (handleAddCharacter gen st st))"
| update_character: "reachable gen st \<Longrightarrow>
     reachable gen (toolboxEffect st (handleUpdateCharacter st charId field val st))"
| remove_character: "reachable gen st \<Longrightarrow>
     reachable gen (toolboxEffect st (handleRemoveCharacter st charId st))"

text \<open>
  The invariant of the data model: every panel has as many slots as its layout asks for.
\<close>

definition slotsMatchLayout :: "ComicPanel list \<Rightarrow> bool" where
  "slotsMatchLayout ps = (\<forall>p\<in>set ps. length (images p) = slotCount (splitLayout p))"

text \<open>
  What makes it inductive: no two panels share an identifier, and every panel identifier
  was drawn from \<open>uuidv4\<close> at a call already made.
\<close>

definition wellFormed :: "uuid_source \<Rightarrow> ComicPanel list \<Rightarrow> nat \<Rightarrow> bool" where
  "wellFormed gen ps n =
     (slotsMatchLayout ps \<and> distinct (map panel_id ps)
      \<and> (\<forall>p\<in>set ps. \<exists>k<n. panel_id p = gen k))"

section \<open>Example runs\<close>

text \<open>A source of identifiers that never repeats: \<open>u\<close>, \<open>u+\<close>, \<open>u++\<close>, and so on.\<close>

definition testUuid :: uuid_source where
  "testUuid n = CHR ''u'' # replicate n CHR ''+''"

definition sdkImage :: Sdk where
  "sdkImage = \<lparr>generateImages = Resolved (Some ''QUJD''), generateContent = Rejected\<rparr>"

definition sdkNoPayload :: Sdk where
  "sdkNoPayload =
     \<lparr>generateImages = Resolved None, generateContent = Resolved (Some [Part None])\<rparr>"

text \<open>One panel, then two, generated from the empty store with nothing selected.\<close>

definition onePanel :: AppState where
  "onePanel = handleGenerate testUuid ''a city at night'' NOIR None sdkImage initialState"

definition twoPanels :: AppState where
  "twoPanels = handleGenerate testUuid ''a detective'' NOIR None sdkImage onePanel"

text \<open>
  The user clicks the slot of the only panel and goes back to the Create tab. The prompt
  \<open>rain\<close> is then submitted: \<open>handleGenerate\<close> is a closure of this state.
\<close>

definition selectedOne :: AppState where
  "selectedOne = setMode CREATE (slotClick (testUuid 0) (testUuid 1) onePanel)"

text \<open>
  While the request is pending, the user opens the Tools tab and gives the panel the layout
  QUAD; then the gateway answers with an image.
\<close>

definition changedWhilePending :: AppState where
  "changedWhilePending =
     handleChangeSplitLayout testUuid (testUuid 0) QUAD
       (setMode EDIT (handleGenerate_start selectedOne ''rain'' NOIR None selectedOne))"

definition staleFill :: AppState where
  "staleFill =
     handleGenerate_finish testUuid selectedOne ''rain''
       (handleGenerate_await None sdkImage) changedWhilePending"

text \<open>
  The second of two panels is selected and split in two, which gives it an empty slot;
  then the first panel is selected again.
\<close>

definition splitSecond :: AppState where
  "splitSecond =
     handleChangeSplitLayout testUuid (testUuid 2) DOUBLE_V
       (slotClick (testUuid 2) (testUuid 3) twoPanels)"

definition backToFirst :: AppState where
  "backToFirst = slotClick (testUuid 0) (testUuid 1) splitSecond"

text \<open>The panel that the first generation creates.\<close>

definition firstPanel :: ComicPanel where
  "firstPanel =
     \<lparr>panel_id = ''u'',
      images = [\<lparr>img_id = ''u+'', url = ''data:image/jpeg;base64,QUJD'',
                 prompt = ''a city at night''\<rparr>],
      splitLayout = SINGLE, caption = [], aspectRatio = AR_1_1, colSpan = 1,
      overlayType = NONE\<rparr>"

text \<open>The same panel after a change to the layout QUAD.\<close>

definition quadPanel :: ComicPanel where
  "quadPanel =
     firstPanel\<lparr>splitLayout := QUAD,
       images := images firstPanel
         @ [emptySlot ''u++'', emptySlot ''u+++'', emptySlot ''u++++'']\<rparr>"

text \<open>The second panel as generated, and after the change to DOUBLE_V.\<close>

definition secondPanel :: ComicPanel where
  "secondPanel =
     \<lparr>panel_id = ''u++'',
      images = [\<lparr>img_id = ''u+++'', url = ''data:image/jpeg;base64,QUJD'',
                 prompt = ''a detective''\<rparr>],
      splitLayout = SINGLE, caption = [], aspectRatio = AR_1_1, colSpan = 1,
      overlayType = NONE\<rparr>"

definition doublePanel :: ComicPanel where
  "doublePanel =
     secondPanel\<lparr>splitLayout := DOUBLE_V,
       images := images secondPanel @ [emptySlot ''u++++'']\<rparr>"

text \<open>With the first panel selected, the user clicks the empty slot of the second.\<close>

definition emptySlotClicked :: AppState where
  "emptySlotClicked = slotClick (testUuid 2) (testUuid 4) backToFirst"

text \<open>
  The only panel is selected and given the layout QUAD; its second slot, which is empty,
  is clicked and filled with the prompt \<open>a bridge\<close>.
\<close>

definition quadSelected :: AppState where
  "quadSelected =
     handleChangeSplitLayout testUuid (testUuid 0) QUAD
       (slotClick (testUuid 0) (testUuid 1) onePanel)"

definition secondSlotFilled :: AppState where
  "secondSlotFilled =
     handleGenerate testUuid ''a bridge'' NOIR None sdkImage
       (slotClick (testUuid 0) (testUuid 2) quadSelected)"

text \<open>
  The prompt \<open>rain\<close> is submitted for the same slot: \<open>handleGenerate\<close> is a closure of
  \<open>secondSlotFilled\<close>. While the request is pending, the user opens the Tools tab and
  gives the panel the layout SINGLE; then the gateway answers with an image.
\<close>

definition shrunkWhilePending :: AppState where
  "shrunkWhilePending =
     handleChangeSplitLayout testUuid (testUuid 0) SINGLE
       (setMode EDIT (handleGenerate_start secondSlotFilled ''rain'' NOIR None secondSlotFilled))"

definition droppedSlotsBack :: AppState where
  "droppedSlotsBack =
     handleGenerate_finish testUuid secondSlotFilled ''rain''
       (handleGenerate_await None sdkImage) shrunkWhilePending"

text \<open>The second slot of the panel with its first image, and with the image of \<open>rain\<close>.\<close>

definition bridgeSlot :: ComicImage where
  "bridgeSlot =
     \<lparr>img_id = ''u++'', url = ''data:image/jpeg;base64,QUJD'', prompt = ''a bridge''\<rparr>"

definition rainSlot :: ComicImage where
  "rainSlot = \<lparr>img_id = ''u++'', url = ''data:image/jpeg;base64,QUJD'', prompt = ''rain''\<rparr>"

section \<open>The layout change\<close>

lemma targetCount_slotCount: "targetCount newLayout = slotCount newLayout"
  by (cases newLayout) (simp_all add: targetCount_def)

lemma targetCount_pos: "0 < targetCount newLayout"
  by (simp add: targetCount_slotCount) (cases newLayout; simp)

lemma pushEmptySlots_eq:
  "pushEmptySlots gen needed (xs, n) =
     (xs @ map (\<lambda>k. emptySlot (gen k)) [n..<n + needed], n + needed)"
proof (induction needed arbitrary: xs n)
  case 0
  then show ?case by simp
next
  case (Suc needed)
  have "[n..<n + Suc needed] = n # [Suc n..<Suc n + needed]"
    by (simp add: upt_conv_Cons)
  with Suc show ?case by simp
qed

lemma changeSplitLayoutOf_other:
  "panel_id p \<noteq> panelId \<Longrightarrow> changeSplitLayoutOf gen panelId newLayout p n = (p, n)"
  by (simp add: changeSplitLayoutOf_def)

lemma changeSplitLayoutOf_grow:
  assumes "panel_id p = panelId" and "length (images p) < targetCount newLayout"
  shows "changeSplitLayoutOf gen panelId newLayout p n =
           (p\<lparr>splitLayout := newLayout,
              images := images p @ map (\<lambda>k. emptySlot (gen k))
                 [n..<n + (targetCount newLayout - length (images p))]\<rparr>,
            n + (targetCount newLayout - length (images p)))"
  using assms by (simp add: changeSplitLayoutOf_def Let_def pushEmptySlots_eq)

lemma changeSplitLayoutOf_shrink:
  assumes "panel_id p = panelId" and "targetCount newLayout \<le> length (images p)"
  shows "changeSplitLayoutOf gen panelId newLayout p n =
           (p\<lparr>splitLayout := newLayout, images := take (targetCount newLayout) (images p)\<rparr>, n)"
  using assms by (simp add: changeSplitLayoutOf_def Let_def)

lemma changeSplitLayoutOf_length:
  "panel_id p = panelId \<Longrightarrow>
     length (images (fst (changeSplitLayoutOf gen panelId newLayout p n))) = targetCount newLayout"
  by (cases "length (images p) < targetCount newLayout")
     (simp_all add: changeSplitLayoutOf_grow changeSplitLayoutOf_shrink)

lemma changeSplitLayoutOf_mono: "n \<le> snd (changeSplitLayoutOf gen panelId newLayout p n)"
  by (cases "panel_id p = panelId"; cases "length (images p) < targetCount newLayout")
     (simp_all add: changeSplitLayoutOf_grow changeSplitLayoutOf_shrink changeSplitLayoutOf_other)

lemma mapPanels_Cons:
  "mapPanels f (p # ps) n =
     (fst (f p n) # fst (mapPanels f ps (snd (f p n))), snd (mapPanels f ps (snd (f p n))))"
  by (simp split: prod.splits)

lemma mapPanels_length: "length (fst (mapPanels f ps n)) = length ps"
  by (induction ps arbitrary: n) (simp_all add: mapPanels_Cons del: mapPanels.simps(2))

lemma mapPanels_mono:
  assumes "\<And>p k. k \<le> snd (f p k)"
  shows "n \<le> snd (mapPanels f ps n)"
proof (induction ps arbitrary: n)
  case Nil
  then show ?case by simp
next
  case (Cons p ps)
  have "n \<le> snd (f p n)" by (rule assms)
  also have "\<dots> \<le> snd (mapPanels f ps (snd (f p n)))" by (rule Cons.IH)
  finally show ?case by (simp add: mapPanels_Cons del: mapPanels.simps(2))
qed

text \<open>
  Each panel of the result is the mapped function at the panel of the same index, run with
  some number \<open>m\<close> of identifiers already drawn, between the numbers before and after.
\<close>

lemma mapPanels_nth:
  assumes mono: "\<And>p k. k \<le> snd (f p k)" and "i < length ps"
  shows "\<exists>m. n \<le> m \<and> snd (f (ps ! i) m) \<le> snd (mapPanels f ps n)
             \<and> fst (mapPanels f ps n) ! i = fst (f (ps ! i) m)"
  using assms(2)
proof (induction ps arbitrary: n i)
  case Nil
  then show ?case by simp
next
  case (Cons p ps)
  let ?n' = "snd (f p n)"
  have le1: "n \<le> ?n'" by (rule mono)
  have le2: "?n' \<le> snd (mapPanels f ps ?n')" using mono by (rule mapPanels_mono)
  show ?case
  proof (cases i)
    case 0
    then show ?thesis using le2
      by (intro exI [of _ n]) (simp add: mapPanels_Cons del: mapPanels.simps(2))
  next
    case (Suc j)
    then have "j < length ps" using Cons.prems by simp
    from Cons.IH [OF this, of ?n'] obtain m where
      "?n' \<le> m" "snd (f (ps ! j) m) \<le> snd (mapPanels f ps ?n')"
      "fst (mapPanels f ps ?n') ! j = fst (f (ps ! j) m)"
      by blast
    then show ?thesis using Suc le1
      by (intro exI [of _ m]) (simp add: mapPanels_Cons del: mapPanels.simps(2))
  qed
qed

lemma mapPanels_set:
  assumes "p' \<in> set (fst (mapPanels f ps n))"
  shows "\<exists>p m. p \<in> set ps \<and> p' = fst (f p m)"
  using assms
proof (induction ps arbitrary: n)
  case Nil
  then show ?case by simp
next
  case (Cons p ps)
  from Cons.prems have "p' = fst (f p n) \<or> p' \<in> set (fst (mapPanels f ps (snd (f p n))))"
    by (simp add: mapPanels_Cons del: mapPanels.simps(2))
  then show ?case
  proof
    assume "p' = fst (f p n)"
    then show ?thesis by auto
  next
    assume "p' \<in> set (fst (mapPanels f ps (snd (f p n))))"
    from Cons.IH [OF this] show ?thesis by auto
  qed
qed

lemma changeSplitLayoutOf_id:
  "panel_id (fst (changeSplitLayoutOf gen panelId newLayout p n)) = panel_id p"
  by (cases "panel_id p = panelId"; cases "length (images p) < targetCount newLayout")
     (simp_all add: changeSplitLayoutOf_grow changeSplitLayoutOf_shrink changeSplitLayoutOf_other)

lemma handleChangeSplitLayout_fields:
  "panels (handleChangeSplitLayout gen panelId newLayout st) =
     fst (mapPanels (changeSplitLayoutOf gen panelId newLayout) (panels st) (uuidCount st))"
  "uuidCount (handleChangeSplitLayout gen panelId newLayout st) =
     snd (mapPanels (changeSplitLayoutOf gen panelId newLayout) (panels st) (uuidCount st))"
  by (simp_all add: handleChangeSplitLayout_def split: prod.splits)

lemma handleChangeSplitLayout_target:
  assumes "p \<in> set (panels (handleChangeSplitLayout gen panelId newLayout st))"
    and "panel_id p = panelId"
  shows "length (images p) = targetCount newLayout \<and> splitLayout p = newLayout"
proof -
  let ?f = "changeSplitLayoutOf gen panelId newLayout"
  from assms(1) obtain q m where q: "q \<in> set (panels st)" "p = fst (?f q m)"
    using mapPanels_set by (fastforce simp: handleChangeSplitLayout_fields)
  with assms(2) have qid: "panel_id q = panelId"
    by (simp add: changeSplitLayoutOf_id)
  then have "length (images p) = targetCount newLayout"
    using q(2) by (simp add: changeSplitLayoutOf_length)
  moreover have "splitLayout p = newLayout"
    using q(2) qid
    by (cases "length (images q) < targetCount newLayout")
       (simp_all add: changeSplitLayoutOf_grow changeSplitLayoutOf_shrink)
  ultimately show ?thesis by simp
qed

section \<open>The example runs, evaluated\<close>

lemma testUuid_values:
  "testUuid 0 = ''u''" "testUuid (Suc 0) = ''u+''" "testUuid 1 = ''u+''"
  "testUuid 2 = ''u++''" "testUuid 3 = ''u+++''" "testUuid 4 = ''u++++''"
  by (simp_all add: testUuid_def numeral_eq_Suc)

lemma await_sdkImage:
  "handleGenerate_await None sdkImage = Inr ''data:image/jpeg;base64,QUJD''"
  by (simp add: handleGenerate_await_def sdkImage_def generateComicImage_def)

lemma onePanel_fields:
  "panels onePanel = [firstPanel]"
  "selectedPanelId onePanel = None" "activeSlotId onePanel = None" "mode onePanel = CREATE"
  "uuidCount onePanel = 2" "characters onePanel = []"
  by (simp_all add: onePanel_def handleGenerate_def handleGenerate_finish_def
        handleGenerate_apply_def handleGenerate_start_def await_sdkImage initialState_def
        testUuid_values firstPanel_def)

lemma selectedOne_fields:
  "panels selectedOne = [firstPanel]"
  "selectedPanelId selectedOne = Some ''u''" "activeSlotId selectedOne = Some ''u+''"
  "mode selectedOne = CREATE" "uuidCount selectedOne = 2" "characters selectedOne = []"
  by (simp_all add: selectedOne_def setMode_def slotClick_def toolboxEffect_def
        handleSlotSelect_def handlePanelSelect_def selectedPanel_def onePanel_fields
        testUuid_values firstPanel_def Let_def)

lemma changedWhilePending_fields:
  "panels changedWhilePending =
     [quadPanel]"
  "uuidCount changedWhilePending = 5"
  by (simp_all add: changedWhilePending_def handleChangeSplitLayout_def changeSplitLayoutOf_def
        setMode_def handleGenerate_start_def selectedOne_fields targetCount_def testUuid_values
        firstPanel_def quadPanel_def Let_def pushEmptySlots_eq upt_conv_Cons)

lemma twoPanels_fields:
  "panels twoPanels = [firstPanel, secondPanel]"
  "selectedPanelId twoPanels = None" "activeSlotId twoPanels = None" "mode twoPanels = CREATE"
  "uuidCount twoPanels = 4" "characters twoPanels = []"
  by (simp_all add: twoPanels_def handleGenerate_def handleGenerate_finish_def
        handleGenerate_apply_def handleGenerate_start_def await_sdkImage onePanel_fields
        testUuid_values secondPanel_def)

lemma splitSecond_fields:
  "panels splitSecond = [firstPanel, doublePanel]"
  "selectedPanelId splitSecond = Some ''u++''" "activeSlotId splitSecond = Some ''u+++''"
  "mode splitSecond = EDIT" "uuidCount splitSecond = 5" "characters splitSecond = []"
  by (simp_all add: splitSecond_def handleChangeSplitLayout_def changeSplitLayoutOf_def
        slotClick_def toolboxEffect_def handleSlotSelect_def handlePanelSelect_def
        selectedPanel_def twoPanels_fields targetCount_def testUuid_values firstPanel_def
        secondPanel_def doublePanel_def Let_def pushEmptySlots_eq upt_conv_Cons)

lemma backToFirst_fields:
  "panels backToFirst = [firstPanel, doublePanel]"
  "selectedPanelId backToFirst = Some ''u''" "activeSlotId backToFirst = Some ''u+''"
  "mode backToFirst = EDIT" "uuidCount backToFirst = 5" "characters backToFirst = []"
  by (simp_all add: backToFirst_def slotClick_def toolboxEffect_def handleSlotSelect_def
        handlePanelSelect_def selectedPanel_def splitSecond_fields testUuid_values
        firstPanel_def secondPanel_def doublePanel_def Let_def)

lemma emptySlotClicked_fields:
  "panels emptySlotClicked = [firstPanel, doublePanel]"
  "selectedPanelId emptySlotClicked = Some ''u++''"
  "activeSlotId emptySlotClicked = Some ''u++++''"
  "mode emptySlotClicked = EDIT" "uuidCount emptySlotClicked = 5"
  "characters emptySlotClicked = []"
  by (simp_all add: emptySlotClicked_def slotClick_def toolboxEffect_def handleSlotSelect_def
        handlePanelSelect_def selectedPanel_def backToFirst_fields testUuid_values
        firstPanel_def secondPanel_def doublePanel_def emptySlot_def Let_def)

lemma selectedOne_quad:
  "panels (handleChangeSplitLayout testUuid ''u'' QUAD selectedOne) = [quadPanel]"
  by (simp add: handleChangeSplitLayout_def changeSplitLayoutOf_def selectedOne_fields
        targetCount_def testUuid_values firstPanel_def quadPanel_def Let_def pushEmptySlots_eq
        upt_conv_Cons)

section \<open>Claims on the layout change\<close>

text \<open>
  C1. After \<open>handleChangeSplitLayout panelId newLayout\<close>, every panel with the identifier
  \<open>panelId\<close> carries the new layout tag and has the number of slots that the table of the
  specification gives for it: 1 for SINGLE, 2 for DOUBLE_V and DOUBLE_H, 3 for TRIPLE_V,
  TRIPLE_H, BIG_LEFT, BIG_RIGHT, BIG_TOP and BIG_BOTTOM, 4 for QUAD.
\<close>

theorem changeSplitLayout_slot_count:
  assumes "p \<in> set (panels (handleChangeSplitLayout gen panelId newLayout st))"
    and "panel_id p = panelId"
  shows "length (images p) = slotCount newLayout \<and> splitLayout p = newLayout"
  using handleChangeSplitLayout_target [OF assms] by (simp add: targetCount_slotCount)

theorem changeSplitLayout_slot_count_witness:
  "quadPanel \<in> set (panels (handleChangeSplitLayout testUuid ''u'' QUAD selectedOne))
   \<and> panel_id quadPanel = ''u''
   \<and> length (images quadPanel) = slotCount QUAD \<and> splitLayout quadPanel = QUAD"
proof -
  have h1: "quadPanel \<in> set (panels (handleChangeSplitLayout testUuid ''u'' QUAD selectedOne))"
    by (simp add: selectedOne_quad)
  have h2: "panel_id quadPanel = ''u''"
    by (simp add: quadPanel_def firstPanel_def)
  from changeSplitLayout_slot_count [OF h1 h2] h1 h2 show ?thesis by simp
qed

text \<open>
  What one layout change does to the slots of a panel, at the moment it is applied. Let a
  panel with the identifier \<open>panelId\<close> stand at index \<open>i\<close>, and let \<open>N\<close> be the slot count
  of the new layout. When the panel has fewer than \<open>N\<close> slots, its new slot list is the old
  one, unchanged and in order, followed by one empty slot (empty url, empty prompt) for
  each missing one, whose identifiers are those that \<open>uuidv4\<close> returns at calls made during
  this operation (the calls number \<open>m\<close>, \<open>m + 1\<close>, and so on, none of them made before).
  When it has \<open>N\<close> slots or more, its new slot list is the first \<open>N\<close> of the old one.
\<close>

lemma changeSplitLayout_reconciles:
  assumes "i < length (panels st)" and "panel_id (panels st ! i) = panelId"
  shows "\<exists>m. uuidCount st \<le> m \<and>
     (let old = images (panels st ! i);
          st' = handleChangeSplitLayout gen panelId newLayout st;
          new = images (panels st' ! i);
          N = slotCount newLayout
      in (length old < N \<longrightarrow>
            new = old @ map (\<lambda>k. \<lparr>img_id = gen k, url = [], prompt = []\<rparr>)
                          [m..<m + (N - length old)]
            \<and> m + (N - length old) \<le> uuidCount st')
         \<and> (N \<le> length old \<longrightarrow> new = take N old))"
proof -
  let ?f = "changeSplitLayoutOf gen panelId newLayout"
  let ?p = "panels st ! i"
  have mono: "\<And>p k. k \<le> snd (?f p k)" by (rule changeSplitLayoutOf_mono)
  from mapPanels_nth [of ?f i "panels st" "uuidCount st", OF mono assms(1)]
  obtain m where m: "uuidCount st \<le> m"
    "snd (?f ?p m) \<le> snd (mapPanels ?f (panels st) (uuidCount st))"
    "fst (mapPanels ?f (panels st) (uuidCount st)) ! i = fst (?f ?p m)"
    by blast
  show ?thesis
  proof (intro exI [of _ m] conjI, rule m(1))
    show "let old = images ?p;
          st' = handleChangeSplitLayout gen panelId newLayout st;
          new = images (panels st' ! i);
          N = slotCount newLayout
      in (length old < N \<longrightarrow>
            new = old @ map (\<lambda>k. \<lparr>img_id = gen k, url = [], prompt = []\<rparr>)
                          [m..<m + (N - length old)]
            \<and> m + (N - length old) \<le> uuidCount st')
         \<and> (N \<le> length old \<longrightarrow> new = take N old)"
    proof (cases "length (images ?p) < targetCount newLayout")
      case True
      from changeSplitLayoutOf_grow [OF assms(2) True, of gen m] m(2,3) True
      show ?thesis
        by (simp add: Let_def handleChangeSplitLayout_fields targetCount_slotCount emptySlot_def)
    next
      case False
      then have le: "targetCount newLayout \<le> length (images ?p)" by simp
      from changeSplitLayoutOf_shrink [OF assms(2) le, of gen m] m(3) le
      show ?thesis
        by (simp add: Let_def handleChangeSplitLayout_fields targetCount_slotCount)
    qed
  qed
qed

lemma changeSplitLayout_reconciles_example:
  "0 < length (panels selectedOne) \<and> panel_id (panels selectedOne ! 0) = ''u''
   \<and> (\<exists>m\<ge>2. images (panels (handleChangeSplitLayout testUuid ''u'' QUAD selectedOne) ! 0)
         = images firstPanel
           @ map (\<lambda>k. \<lparr>img_id = testUuid k, url = [], prompt = []\<rparr>) [m..<m + 3])
   \<and> 0 < length (panels changedWhilePending)
   \<and> panel_id (panels changedWhilePending ! 0) = ''u''
   \<and> images (panels (handleChangeSplitLayout testUuid ''u'' DOUBLE_H changedWhilePending) ! 0)
       = take 2 (images quadPanel)"
proof -
  have g1: "0 < length (panels selectedOne)" by (simp add: selectedOne_fields)
  have g2: "panel_id (panels selectedOne ! 0) = ''u''"
    by (simp add: selectedOne_fields firstPanel_def)
  have s1: "0 < length (panels changedWhilePending)" by (simp add: changedWhilePending_fields)
  have s2: "panel_id (panels changedWhilePending ! 0) = ''u''"
    by (simp add: changedWhilePending_fields quadPanel_def firstPanel_def)
  from changeSplitLayout_reconciles [OF g1 g2, of testUuid QUAD]
  have grow: "\<exists>m\<ge>2. images (panels (handleChangeSplitLayout testUuid ''u'' QUAD selectedOne) ! 0)
         = images firstPanel
           @ map (\<lambda>k. \<lparr>img_id = testUuid k, url = [], prompt = []\<rparr>) [m..<m + 3]"
    by (auto simp add: Let_def selectedOne_fields firstPanel_def add.commute)
  from changeSplitLayout_reconciles [OF s1 s2, of testUuid DOUBLE_H]
  have shrink: "images (panels (handleChangeSplitLayout testUuid ''u'' DOUBLE_H changedWhilePending) ! 0)
       = take 2 (images quadPanel)"
    by (simp add: Let_def changedWhilePending_fields quadPanel_def firstPanel_def)
  from g1 g2 grow s1 s2 shrink show ?thesis by blast
qed

text \<open>
  In a panel that has the slot count of its layout, the two cases are those of a layout
  change that raises the required count and of one that does not.
\<close>

lemma changeSplitLayout_by_required_count:
  assumes "i < length (panels st)" and "panel_id (panels st ! i) = panelId"
    and "length (images (panels st ! i)) = slotCount (splitLayout (panels st ! i))"
  shows "\<exists>m. uuidCount st \<le> m \<and>
     (let old = images (panels st ! i);
          st' = handleChangeSplitLayout gen panelId newLayout st;
          new = images (panels st' ! i);
          N = slotCount newLayout
      in (slotCount (splitLayout (panels st ! i)) < N \<longrightarrow>
            new = old @ map (\<lambda>k. \<lparr>img_id = gen k, url = [], prompt = []\<rparr>)
                          [m..<m + (N - length old)]
            \<and> m + (N - length old) \<le> uuidCount st')
         \<and> (N \<le> slotCount (splitLayout (panels st ! i)) \<longrightarrow> new = take N old))"
  using changeSplitLayout_reconciles [OF assms(1,2), of gen newLayout] assms(3)
  by (simp add: Let_def)

text \<open>
  The identifiers of the appended slots are new: when \<open>uuidv4\<close> never repeats and every
  slot of the state has an identifier drawn at a call already made, they differ from one
  another and from the identifier of every slot of the state.
\<close>

lemma changeSplitLayout_new_ids_fresh:
  assumes "inj gen" and "i < length (panels st)" and "panel_id (panels st ! i) = panelId"
    and grow: "length (images (panels st ! i)) < slotCount newLayout"
    and drawn: "\<And>p img. p \<in> set (panels st) \<Longrightarrow> img \<in> set (images p) \<Longrightarrow>
                 \<exists>k<uuidCount st. img_id img = gen k"
  shows "let appended =
               drop (length (images (panels st ! i)))
                 (images (panels (handleChangeSplitLayout gen panelId newLayout st) ! i))
         in length appended = slotCount newLayout - length (images (panels st ! i))
            \<and> distinct (map img_id appended)
            \<and> (\<forall>new\<in>set appended. \<forall>p\<in>set (panels st). \<forall>img\<in>set (images p).
                  img_id new \<noteq> img_id img)"
proof -
  let ?old = "images (panels st ! i)"
  let ?d = "slotCount newLayout - length ?old"
  from changeSplitLayout_reconciles [OF assms(2,3), of gen newLayout] grow
  obtain m where m: "uuidCount st \<le> m"
    and new: "images (panels (handleChangeSplitLayout gen panelId newLayout st) ! i) =
        ?old @ map (\<lambda>k. \<lparr>img_id = gen k, url = [], prompt = []\<rparr>) [m..<m + ?d]"
    by (auto simp: Let_def)
  let ?app = "map (\<lambda>k. \<lparr>img_id = gen k, url = [], prompt = []\<rparr>) [m..<m + ?d]"
  have ids: "map img_id ?app = map gen [m..<m + ?d]"
    by simp
  have "inj_on gen (set [m..<m + ?d])"
    using \<open>inj gen\<close> by (rule inj_on_subset) simp
  then have dist: "distinct (map img_id ?app)"
    unfolding ids by (simp add: distinct_map)
  have other: "img_id new \<noteq> img_id img"
    if "new \<in> set ?app" "p \<in> set (panels st)" "img \<in> set (images p)" for new p img
  proof -
    from that(1) obtain k where k: "m \<le> k" "img_id new = gen k" by auto
    from drawn [OF that(2,3)] obtain j where j: "j < uuidCount st" "img_id img = gen j"
      by blast
    from k(1) j(1) m have "k \<noteq> j" by simp
    with \<open>inj gen\<close> have "gen k \<noteq> gen j" by (auto dest: injD)
    with k(2) j(2) show ?thesis by simp
  qed
  show ?thesis
    unfolding Let_def new using dist other by (simp del: map_map)
qed

lemma mapPanels_unchanged:
  assumes "\<And>p. p \<in> set ps \<Longrightarrow> f p n = (p, n)"
  shows "mapPanels f ps n = (ps, n)"
  using assms by (induction ps) simp_all

lemma changeSplitLayoutOf_unchanged:
  assumes "panel_id p = panelId \<longrightarrow>
             length (images p) = targetCount newLayout \<and> splitLayout p = newLayout"
  shows "changeSplitLayoutOf gen panelId newLayout p n = (p, n)"
  using assms by (cases "panel_id p = panelId") (simp_all add: changeSplitLayoutOf_def Let_def)

text \<open>
  C10. Changing a panel to the layout \<open>newLayout\<close> twice in a row gives the state that
  changing it once gives: the second change leaves every panel, with its slot list and
  the identifiers of its slots, as the first change left it, and draws no identifier.
\<close>

theorem changeSplitLayout_idempotent:
  "handleChangeSplitLayout gen panelId newLayout (handleChangeSplitLayout gen panelId newLayout st)
     = handleChangeSplitLayout gen panelId newLayout st"
proof -
  let ?st' = "handleChangeSplitLayout gen panelId newLayout st"
  have "mapPanels (changeSplitLayoutOf gen panelId newLayout) (panels ?st') (uuidCount ?st')
          = (panels ?st', uuidCount ?st')"
  proof (rule mapPanels_unchanged)
    fix p assume "p \<in> set (panels ?st')"
    then have "panel_id p = panelId \<longrightarrow>
        length (images p) = targetCount newLayout \<and> splitLayout p = newLayout"
      using handleChangeSplitLayout_target [of p gen panelId newLayout st] by simp
    then show "changeSplitLayoutOf gen panelId newLayout p (uuidCount ?st') = (p, uuidCount ?st')"
      by (rule changeSplitLayoutOf_unchanged)
  qed
  then show ?thesis
    by (simp add: handleChangeSplitLayout_def [of gen panelId newLayout ?st'])
qed

section \<open>Deleting a panel\<close>

lemma find_never: "find (\<lambda>x. False) xs = None"
  by (induction xs) simp_all

lemma find_filter:
  assumes "\<And>x. P x \<Longrightarrow> Q x"
  shows "find P (filter Q xs) = find P xs"
  using assms by (induction xs) auto

lemma handleDeletePanel_effect:
  "toolboxEffect st (handleDeletePanel st id' st) = handleDeletePanel st id' st"
proof (cases "selectedPanelId st = Some id'")
  case True
  then show ?thesis
    by (simp add: toolboxEffect_def handleDeletePanel_def selectedPanel_def Let_def find_never)
next
  case False
  have "find (\<lambda>p. Some (panel_id p) = selectedPanelId st)
          (filter (\<lambda>p. panel_id p \<noteq> id') (panels st))
        = find (\<lambda>p. Some (panel_id p) = selectedPanelId st) (panels st)"
    using False by (intro find_filter) auto
  with False show ?thesis
    by (simp add: toolboxEffect_def handleDeletePanel_def selectedPanel_def Let_def)
qed

text \<open>
  C5. \<open>handleDeletePanel\<close> leaves the panels whose identifier is not the given one, in
  their order and unchanged, and no other. When the selected panel identifier was the given
  one, the selected panel identifier and the active slot identifier are both \<open>null\<close>
  afterwards; otherwise both are as they were. No other part of the state changes, and the
  effect of \<open>Toolbox\<close> changes nothing after the render that follows.
\<close>

theorem deletePanel_frame:
  "(let st' = handleDeletePanel st id' st
    in panels st' = filter (\<lambda>p. panel_id p \<noteq> id') (panels st)
       \<and> (selectedPanelId st = Some id' \<longrightarrow>
            selectedPanelId st' = None \<and> activeSlotId st' = None)
       \<and> (selectedPanelId st \<noteq> Some id' \<longrightarrow>
            selectedPanelId st' = selectedPanelId st \<and> activeSlotId st' = activeSlotId st)
       \<and> st'\<lparr>panels := panels st, selectedPanelId := selectedPanelId st,
              activeSlotId := activeSlotId st\<rparr> = st
       \<and> toolboxEffect st st' = st')"
  using handleDeletePanel_effect [of st id']
  by (simp add: handleDeletePanel_def Let_def)

theorem deletePanel_frame_witness:
  "selectedPanelId backToFirst = Some ''u''
   \<and> panels (handleDeletePanel backToFirst ''u'' backToFirst) = [doublePanel]
   \<and> selectedPanelId (handleDeletePanel backToFirst ''u'' backToFirst) = None
   \<and> activeSlotId (handleDeletePanel backToFirst ''u'' backToFirst) = None
   \<and> selectedPanelId backToFirst \<noteq> Some ''u++''
   \<and> panels (handleDeletePanel backToFirst ''u++'' backToFirst) = [firstPanel]
   \<and> selectedPanelId (handleDeletePanel backToFirst ''u++'' backToFirst) = Some ''u''
   \<and> activeSlotId (handleDeletePanel backToFirst ''u++'' backToFirst) = Some ''u+''"
  using deletePanel_frame [of backToFirst "''u''"] deletePanel_frame [of backToFirst "''u++''"]
  by (simp add: Let_def backToFirst_fields firstPanel_def secondPanel_def doublePanel_def)

section \<open>Generation and edit requests\<close>

lemma firstImagePart_empty_iff:
  "firstImagePart parts = []
     \<longleftrightarrow> (\<forall>part\<in>set parts. \<forall>d. inlineData part = Some d \<longrightarrow> \<not> truthy (inlineData_data d))"
  by (induction parts) (auto split: option.splits)

text \<open>
  A gateway call fails exactly when the service rejects the request or its response carries
  no usable image.
\<close>

lemma generateComicImage_fails_iff:
  "(\<exists>e. generateComicImage response = Inl e)
     \<longleftrightarrow> response = Rejected \<or> (\<exists>b. response = Resolved b \<and> \<not> truthy b)"
  by (cases response) (auto simp: generateComicImage_def)

lemma imageOfContent_fails_iff:
  "(\<exists>e. imageOfContent noData response = Inl e)
     \<longleftrightarrow> response = Rejected \<or> response = Resolved None
         \<or> (\<exists>parts. response = Resolved (Some parts)
               \<and> (\<forall>part\<in>set parts. \<forall>d. inlineData part = Some d
                      \<longrightarrow> \<not> truthy (inlineData_data d)))"
proof (cases response)
  case Rejected
  then show ?thesis by (simp add: imageOfContent_def)
next
  case (Resolved r)
  then show ?thesis
    by (cases r) (auto simp: imageOfContent_def Let_def firstImagePart_empty_iff)
qed

text \<open>
  After a failed call the rest of \<open>handleGenerate\<close> shows the notice and clears the loading
  flag, whatever the closure and whatever the store has become in the meantime.
\<close>

lemma handleGenerate_finish_failed:
  "handleGenerate_finish gen cl prompt' (Inl e) st =
     st\<lparr>alerts := alerts st @ [''Failed to generate image. Please try again.''],
        loadingState := idle\<rparr>"
  by (simp add: handleGenerate_finish_def)

lemma handleEdit_finish_failed:
  "handleEdit_guard cl = EditTarget sp activeImage \<Longrightarrow>
   handleEdit_finish cl (Inl e) st =
     st\<lparr>alerts := alerts st @ [''Failed to edit image. Make sure your prompt is clear.''],
        loadingState := idle\<rparr>"
  by (simp add: handleEdit_finish_def)

text \<open>
  C8. When no panel is selected, or no slot is active, or the active slot of the selected
  panel is not found or has an empty url, \<open>handleEdit\<close> starts no gateway call and leaves
  the whole state as it is, whatever the service would have answered; the only thing it
  does, when a panel is selected and a slot is active, is to show the notice
  "Please select a slot with an image to edit.".
\<close>

theorem handleEdit_rejected:
  assumes "\<And>sp img. selectedPanel st = Some sp \<Longrightarrow> truthy (activeSlotId st) \<Longrightarrow>
             find (\<lambda>img. Some (img_id img) = activeSlotId st) (images sp) = Some img \<Longrightarrow>
             url img = []"
  shows "handleEdit editPrompt sdk st =
           st\<lparr>alerts := alerts st @
                (if selectedPanel st \<noteq> None \<and> truthy (activeSlotId st)
                 then [''Please select a slot with an image to edit.''] else [])\<rparr>
         \<and> gatewayCalls (handleEdit editPrompt sdk st) = gatewayCalls st
         \<and> panels (handleEdit editPrompt sdk st) = panels st
         \<and> loadingState (handleEdit editPrompt sdk st) = loadingState st"
proof -
  have "handleEdit_guard st =
          (if selectedPanel st \<noteq> None \<and> truthy (activeSlotId st) then NoImageInSlot
           else NothingSelected)"
    using assms by (auto simp: handleEdit_guard_def split: option.splits)
  then show ?thesis
    by (simp add: handleEdit_def handleEdit_start_def handleEdit_finish_def)
qed

theorem handleEdit_rejected_witness:
  "selectedPanel emptySlotClicked = Some doublePanel
   \<and> find (\<lambda>img. Some (img_id img) = activeSlotId emptySlotClicked) (images doublePanel)
       = Some (emptySlot ''u++++'')
   \<and> alerts (handleEdit ''add a hat'' sdkImage emptySlotClicked)
       = alerts emptySlotClicked @ [''Please select a slot with an image to edit.'']
   \<and> gatewayCalls (handleEdit ''add a hat'' sdkImage emptySlotClicked)
       = gatewayCalls emptySlotClicked
   \<and> panels (handleEdit ''add a hat'' sdkImage emptySlotClicked) = panels emptySlotClicked
   \<and> selectedPanel onePanel = None
   \<and> handleEdit ''add a hat'' sdkImage onePanel = onePanel"
proof -
  have sel: "selectedPanel emptySlotClicked = Some doublePanel"
    by (simp add: selectedPanel_def emptySlotClicked_fields firstPanel_def doublePanel_def
          secondPanel_def)
  have slot: "find (\<lambda>img. Some (img_id img) = activeSlotId emptySlotClicked) (images doublePanel)
       = Some (emptySlot ''u++++'')"
    by (simp add: emptySlotClicked_fields doublePanel_def secondPanel_def emptySlot_def)
  have none: "selectedPanel onePanel = None"
    by (simp add: selectedPanel_def onePanel_fields)
  have h1: "url img = []" if "selectedPanel emptySlotClicked = Some sp"
    "find (\<lambda>img. Some (img_id img) = activeSlotId emptySlotClicked) (images sp) = Some img"
    for sp img
    using that sel slot by (auto simp: emptySlot_def)
  have h2: "url img = []" if "selectedPanel onePanel = Some sp" for sp and img :: ComicImage
    using that none by simp
  from handleEdit_rejected [of emptySlotClicked "''add a hat''" sdkImage, OF h1]
    handleEdit_rejected [of onePanel "''add a hat''" sdkImage, OF h2] sel slot none
  show ?thesis
    by (simp add: emptySlotClicked_fields)
qed

text \<open>
  C9. When the gateway call of \<open>handleGenerate\<close> fails, and when the gateway call that
  \<open>handleEdit\<close> makes for its target fails, the panels, the two selection pointers, the
  roster, the mode and the number of identifiers drawn are what they were before the
  request, the loading flag is cleared, and a notice is shown.
\<close>

theorem failed_gateway_call_keeps_state:
  "(handleGenerate_await sketch sdk = Inl e \<longrightarrow>
      (let st' = handleGenerate gen prompt' style sketch sdk st
       in panels st' = panels st \<and> selectedPanelId st' = selectedPanelId st
          \<and> activeSlotId st' = activeSlotId st \<and> characters st' = characters st
          \<and> mode st' = mode st \<and> uuidCount st' = uuidCount st
          \<and> loadingState st' = \<lparr>isLoading = False, message = []\<rparr>
          \<and> alerts st' = alerts st @ [''Failed to generate image. Please try again.'']))
   \<and> (handleEdit_guard st = EditTarget sp activeImage
        \<and> editComicImage (generateContent sdk) = Inl e \<longrightarrow>
      (let st' = handleEdit editPrompt sdk st
       in panels st' = panels st \<and> selectedPanelId st' = selectedPanelId st
          \<and> activeSlotId st' = activeSlotId st \<and> characters st' = characters st
          \<and> mode st' = mode st \<and> uuidCount st' = uuidCount st
          \<and> loadingState st' = \<lparr>isLoading = False, message = []\<rparr>
          \<and> alerts st'
              = alerts st @ [''Failed to edit image. Make sure your prompt is clear.'']))"
  by (simp add: handleGenerate_def handleGenerate_finish_failed handleGenerate_start_def
        handleEdit_def handleEdit_finish_failed handleEdit_start_def idle_def Let_def)

theorem failed_gateway_call_keeps_state_witness:
  "handleGenerate_await None sdkNoPayload = Inl NoImageGenerated
   \<and> panels (handleGenerate testUuid ''rain'' NOIR None sdkNoPayload selectedOne) = [firstPanel]
   \<and> uuidCount (handleGenerate testUuid ''rain'' NOIR None sdkNoPayload selectedOne) = 2
   \<and> isLoading (loadingState (handleGenerate testUuid ''rain'' NOIR None sdkNoPayload selectedOne))
       = False
   \<and> handleEdit_guard selectedOne = EditTarget firstPanel (hd (images firstPanel))
   \<and> editComicImage (generateContent sdkImage) = Inl ApiError
   \<and> panels (handleEdit ''add a hat'' sdkImage selectedOne) = [firstPanel]
   \<and> isLoading (loadingState (handleEdit ''add a hat'' sdkImage selectedOne)) = False"
proof -
  have g: "handleGenerate_await None sdkNoPayload = Inl NoImageGenerated"
    by (simp add: handleGenerate_await_def sdkNoPayload_def generateComicImage_def)
  have t: "handleEdit_guard selectedOne = EditTarget firstPanel (hd (images firstPanel))"
    by (simp add: handleEdit_guard_def selectedPanel_def selectedOne_fields firstPanel_def)
  have f: "editComicImage (generateContent sdkImage) = Inl ApiError"
    by (simp add: editComicImage_def imageOfContent_def sdkImage_def)
  from failed_gateway_call_keeps_state [where sketch = None and sdk = sdkNoPayload
      and e = NoImageGenerated and gen = testUuid and prompt' = "''rain''" and style = NOIR
      and st = selectedOne]
    failed_gateway_call_keeps_state [where sdk = sdkImage and e = ApiError and st = selectedOne
      and sp = firstPanel and activeImage = "hd (images firstPanel)"
      and editPrompt = "''add a hat''"]
    g t f
  show ?thesis
    by (simp add: Let_def selectedOne_fields)
qed

section \<open>The composed prompt\<close>

text \<open>
  \<open>trim\<close> of a string that has a character other than white space: what lies between
  the first and the last such character, with both.
\<close>

lemma trim_between:
  assumes "\<not> isWhiteSpace a" and "\<not> isWhiteSpace b"
    and "\<forall>c\<in>set pre. isWhiteSpace c" and "\<forall>c\<in>set post. isWhiteSpace c"
  shows "trim (pre @ a # mid @ b # post) = a # mid @ [b]"
proof -
  have "dropWhile isWhiteSpace (pre @ a # mid @ b # post) = a # mid @ b # post"
    using assms(1,3) by (simp add: dropWhile_append2)
  moreover have "dropWhile isWhiteSpace (rev post @ (b # rev mid @ [a]))
      = dropWhile isWhiteSpace (b # rev mid @ [a])"
    by (rule dropWhile_append2) (use assms(4) in simp)
  ultimately show ?thesis using assms(2) by (simp add: trim_def)
qed

lemma fullPrompt_eq:
  "fullPrompt chars prompt' style =
     ''Art Style: '' @ getStylePrompt style @ ''.''
     @ lineBreak @ rosterClause (getCharacterContextString chars)
     @ lineBreak @ ''Scene Description: '' @ prompt' @ ''.''
     @ lineBreak @ ''(Ensure consistent character details). high quality masterpiece.''"
proof -
  let ?mid = "''rt Style: '' @ getStylePrompt style @ ''.''
     @ lineBreak @ rosterClause (getCharacterContextString chars)
     @ lineBreak @ ''Scene Description: '' @ prompt' @ ''.''
     @ lineBreak @ ''(Ensure consistent character details). high quality masterpiece''"
  have "fullPrompt chars prompt' style = trim (lineBreak @ CHR ''A'' # ?mid @ CHR ''.'' # CHR 0x0A # ''    '')"
    by (simp add: fullPrompt_def Let_def)
  also have "\<dots> = CHR ''A'' # ?mid @ [CHR ''.'']"
    by (rule trim_between) (simp_all add: isWhiteSpace_def lineBreak_def)
  finally show ?thesis by simp
qed

lemma join_Cons_nonempty: "x \<noteq> [] \<Longrightarrow> join sep (x # xs) \<noteq> []"
  by (cases xs) simp_all

lemma getCharacterContextString_nonempty:
  "chars \<noteq> [] \<Longrightarrow> getCharacterContextString chars \<noteq> []"
  by (cases chars) (simp_all add: getCharacterContextString_def join_Cons_nonempty)

lemma rosterClause_roster:
  "rosterClause (getCharacterContextString chars) =
     (if chars = [] then []
      else ''Defined Characters (MUST MATCH EXACTLY): ''
           @ join ''. '' (map (\<lambda>c. trim (name c) @ '': '' @ trim (description c)) chars) @ ''.'')"
proof (cases "chars = []")
  case True
  then show ?thesis by (simp add: rosterClause_def getCharacterContextString_def)
next
  case False
  then have "getCharacterContextString chars \<noteq> []"
    by (rule getCharacterContextString_nonempty)
  with False show ?thesis
    by (simp add: rosterClause_def) (simp add: getCharacterContextString_def)
qed

text \<open>
  C6, as amended. The composed prompt is the style line, the roster line, the scene line and
  the closing line. The roster line is empty when the roster is empty. Otherwise it is
  "Defined Characters (MUST MATCH EXACTLY): ", then one entry "Name: description" for each
  character, in the order of the roster and joined by ". ", then a full stop; the name and
  the description of an entry are those of the character without the white space at their
  ends.
\<close>

theorem roster_clause_of_prompt:
  "fullPrompt chars prompt' style =
     ''Art Style: '' @ getStylePrompt style @ ''.''
     @ lineBreak
     @ (if chars = [] then []
        else ''Defined Characters (MUST MATCH EXACTLY): ''
             @ join ''. '' (map (\<lambda>c. trim (name c) @ '': '' @ trim (description c)) chars)
             @ ''.'')
     @ lineBreak @ ''Scene Description: '' @ prompt' @ ''.''
     @ lineBreak @ ''(Ensure consistent character details). high quality masterpiece.''"
  by (simp only: fullPrompt_eq rosterClause_roster)

text \<open>
  C6, as stated, fails for a name that ends with a space: the roster clause of the prompt
  has the entry "Raven: tall", and the prompt has the text "Raven : tall" nowhere.
\<close>

theorem roster_entry_is_trimmed:
  "\<not> sublist
       (join ''. '' (map (\<lambda>c. name c @ '': '' @ description c)
          [\<lparr>char_id = ''c1'', name = ''Raven '', description = ''tall''\<rparr>]))
       (fullPrompt [\<lparr>char_id = ''c1'', name = ''Raven '', description = ''tall''\<rparr>]
          ''a street'' MODERN)"
  by code_simp

text \<open>
  C7. With the style NOIR and the one character Raven, "black hair, trenchcoat", the
  composed prompt contains the style string of NOIR in the style table and the text
  "Raven: black hair, trenchcoat.", whatever the scene description and the identifier of
  the character.
\<close>

theorem noir_raven_prompt:
  "getStylePrompt NOIR = ''film noir style, high contrast black and white comic, dramatic shadows, mysterious atmosphere, frank miller style''
   \<and> sublist (getStylePrompt NOIR)
        (fullPrompt [\<lparr>char_id = i, name = ''Raven'', description = ''black hair, trenchcoat''\<rparr>]
           prompt' NOIR)
   \<and> sublist ''Raven: black hair, trenchcoat.''
        (fullPrompt [\<lparr>char_id = i, name = ''Raven'', description = ''black hair, trenchcoat''\<rparr>]
           prompt' NOIR)"
proof -
  let ?chars = "[\<lparr>char_id = i, name = ''Raven'', description = ''black hair, trenchcoat''\<rparr>]"
  have entry: "rosterClause (getCharacterContextString ?chars)
      = ''Defined Characters (MUST MATCH EXACTLY): '' @ ''Raven: black hair, trenchcoat.''"
    by (simp add: rosterClause_roster trim_def isWhiteSpace_def)
  have "fullPrompt ?chars prompt' NOIR =
          ''Art Style: '' @ getStylePrompt NOIR
          @ (''.'' @ lineBreak @ rosterClause (getCharacterContextString ?chars)
             @ lineBreak @ ''Scene Description: '' @ prompt' @ ''.''
             @ lineBreak @ ''(Ensure consistent character details). high quality masterpiece.'')"
    by (simp only: fullPrompt_eq append_assoc)
  then have style: "sublist (getStylePrompt NOIR) (fullPrompt ?chars prompt' NOIR)"
    by (simp only: sublist_appendI)
  have "fullPrompt ?chars prompt' NOIR =
          (''Art Style: '' @ getStylePrompt NOIR @ ''.'' @ lineBreak
             @ ''Defined Characters (MUST MATCH EXACTLY): '')
          @ ''Raven: black hair, trenchcoat.''
          @ (lineBreak @ ''Scene Description: '' @ prompt' @ ''.''
             @ lineBreak @ ''(Ensure consistent character details). high quality masterpiece.'')"
    by (simp only: fullPrompt_eq entry append_assoc)
  then have raven: "sublist ''Raven: black hair, trenchcoat.'' (fullPrompt ?chars prompt' NOIR)"
    by (simp only: sublist_appendI)
  from style raven show ?thesis by simp
qed

section \<open>Selecting a slot\<close>

text \<open>
  The effect of \<open>Toolbox\<close> changes the mode only, \<open>handlePanelSelect\<close> the two selection
  pointers only, and \<open>handleSlotSelect\<close> and the whole click these three and nothing else:
  no panel data.
\<close>

lemma toolboxEffect_frame:
  "panels (toolboxEffect prior st) = panels st"
  "selectedPanelId (toolboxEffect prior st) = selectedPanelId st"
  "activeSlotId (toolboxEffect prior st) = activeSlotId st"
  "characters (toolboxEffect prior st) = characters st"
  "gridLayout (toolboxEffect prior st) = gridLayout st"
  "gutterSize (toolboxEffect prior st) = gutterSize st"
  "loadingState (toolboxEffect prior st) = loadingState st"
  "uuidCount (toolboxEffect prior st) = uuidCount st"
  "alerts (toolboxEffect prior st) = alerts st"
  "gatewayCalls (toolboxEffect prior st) = gatewayCalls st"
  by (simp_all add: toolboxEffect_def split: option.splits)

lemma handlePanelSelect_frame:
  "panels (handlePanelSelect cl panelId st) = panels st"
  "mode (handlePanelSelect cl panelId st) = mode st"
  "characters (handlePanelSelect cl panelId st) = characters st"
  "gridLayout (handlePanelSelect cl panelId st) = gridLayout st"
  "gutterSize (handlePanelSelect cl panelId st) = gutterSize st"
  "loadingState (handlePanelSelect cl panelId st) = loadingState st"
  "uuidCount (handlePanelSelect cl panelId st) = uuidCount st"
  "alerts (handlePanelSelect cl panelId st) = alerts st"
  "gatewayCalls (handlePanelSelect cl panelId st) = gatewayCalls st"
  by (simp_all add: handlePanelSelect_def Let_def split: option.splits list.splits)

lemma handleSlotSelect_frame:
  "panels (handleSlotSelect cl panelId imageId st) = panels st"
  "selectedPanelId (handleSlotSelect cl panelId imageId st) = Some panelId"
  "activeSlotId (handleSlotSelect cl panelId imageId st) = Some imageId"
  "characters (handleSlotSelect cl panelId imageId st) = characters st"
  "gridLayout (handleSlotSelect cl panelId imageId st) = gridLayout st"
  "gutterSize (handleSlotSelect cl panelId imageId st) = gutterSize st"
  "loadingState (handleSlotSelect cl panelId imageId st) = loadingState st"
  "uuidCount (handleSlotSelect cl panelId imageId st) = uuidCount st"
  "alerts (handleSlotSelect cl panelId imageId st) = alerts st"
  "gatewayCalls (handleSlotSelect cl panelId imageId st) = gatewayCalls st"
  by (simp_all add: handleSlotSelect_def Let_def split: option.splits)

lemma slotClick_frame:
  "panels (slotClick panelId imageId st) = panels st"
  "selectedPanelId (slotClick panelId imageId st) = Some panelId"
  "activeSlotId (slotClick panelId imageId st) = Some imageId"
  "characters (slotClick panelId imageId st) = characters st"
  "gridLayout (slotClick panelId imageId st) = gridLayout st"
  "gutterSize (slotClick panelId imageId st) = gutterSize st"
  "loadingState (slotClick panelId imageId st) = loadingState st"
  "uuidCount (slotClick panelId imageId st) = uuidCount st"
  "alerts (slotClick panelId imageId st) = alerts st"
  "gatewayCalls (slotClick panelId imageId st) = gatewayCalls st"
  by (simp_all only: slotClick_def toolboxEffect_frame handleSlotSelect_frame
        handlePanelSelect_frame)

lemma toolboxEffect_mode:
  "mode (toolboxEffect prior st) =
     (if map_option panel_id (selectedPanel st) \<noteq> map_option panel_id (selectedPanel prior)
         \<and> selectedPanel st \<noteq> None \<and> mode st \<noteq> STORY
      then EDIT else mode st)"
  by (simp add: toolboxEffect_def split: option.splits)

text \<open>The mode that \<open>handleSlotSelect\<close> leaves, for a slot \<open>img\<close> that it finds.\<close>

lemma handleSlotSelect_mode:
  assumes "find (\<lambda>p. panel_id p = panelId) (panels cl) = Some p"
    and "find (\<lambda>img. img_id img = imageId) (images p) = Some img"
  shows "mode (handleSlotSelect cl panelId imageId st) =
           (if url img = [] then CREATE else if mode cl = CREATE then EDIT else mode st)"
  using assms by (simp add: handleSlotSelect_def Let_def)

text \<open>
  The mode after the whole click. When the click selects another panel than the one that
  was selected, the effect of \<open>Toolbox\<close> runs and puts the mode to EDIT, also for an empty
  slot.
\<close>

lemma slotClick_mode:
  assumes "find (\<lambda>p. panel_id p = panelId) (panels st) = Some p"
    and "find (\<lambda>img. img_id img = imageId) (images p) = Some img"
  shows "mode (slotClick panelId imageId st) =
           (if map_option panel_id (selectedPanel st) \<noteq> Some panelId
            then (if url img \<noteq> [] \<and> mode st = STORY then STORY else EDIT)
            else (if url img = [] then CREATE else if mode st = CREATE then EDIT else mode st))"
proof -
  let ?st' = "handleSlotSelect st panelId imageId (handlePanelSelect st panelId st)"
  have fields: "panels ?st' = panels st" "selectedPanelId ?st' = Some panelId"
    by (simp_all add: handleSlotSelect_def handlePanelSelect_def Let_def
          split: option.splits list.splits)
  have "find (\<lambda>q. Some (panel_id q) = Some panelId) (panels st) = Some p"
    using assms(1) by simp
  then have sel: "selectedPanel ?st' = Some p"
    by (simp add: selectedPanel_def fields)
  have pid: "panel_id p = panelId"
    using assms(1) by (auto simp: find_Some_iff)
  have m: "mode ?st' =
      (if url img = [] then CREATE else if mode st = CREATE then EDIT else mode st)"
    using handleSlotSelect_mode [OF assms, of "handlePanelSelect st panelId st"]
    by (simp add: handlePanelSelect_def Let_def split: option.splits list.splits)
  have new: "map_option panel_id (selectedPanel ?st') = Some panelId"
    using sel pid by simp
  have click: "mode (slotClick panelId imageId st) =
      (if Some panelId \<noteq> map_option panel_id (selectedPanel st) \<and> mode ?st' \<noteq> STORY
       then EDIT else mode ?st')"
    unfolding slotClick_def toolboxEffect_mode new using sel by simp
  show ?thesis
  proof (cases "map_option panel_id (selectedPanel st) = Some panelId")
    case True
    have "mode (slotClick panelId imageId st) = mode ?st'"
      by (simp only: click True simp_thms if_False)
    then show ?thesis
      unfolding m by (simp only: True simp_thms if_False)
  next
    case False
    then have "Some panelId \<noteq> map_option panel_id (selectedPanel st)"
      by (rule not_sym)
    then have "mode (slotClick panelId imageId st) =
        (if mode ?st' \<noteq> STORY then EDIT else STORY)"
      unfolding click by (cases "mode ?st' = STORY") simp_all
    then have "mode (slotClick panelId imageId st) =
        (if url img \<noteq> [] \<and> mode st = STORY then STORY else EDIT)"
      unfolding m by (cases "mode st") simp_all
    then show ?thesis
      by (simp only: False simp_thms if_True)
  qed
qed

text \<open>
  C4. Selecting a slot with no image is to yield the mode CREATE, always. It does not in the
  state \<open>backToFirst\<close>: two panels, the first one selected, the second with the layout
  DOUBLE_V and an empty second slot. A click on that empty slot calls \<open>handlePanelSelect\<close>
  and \<open>handleSlotSelect\<close>, which leave the mode CREATE; the render that follows has
  another selected panel, so the effect of \<open>Toolbox\<close> runs and sets the mode to EDIT. The
  event ends in the mode EDIT on an empty slot.
\<close>

theorem empty_slot_click_ends_in_edit_mode:
  "panels backToFirst = [firstPanel, doublePanel]
   \<and> selectedPanelId backToFirst = Some ''u''
   \<and> find (\<lambda>img. img_id img = ''u++++'') (images doublePanel)
       = Some \<lparr>img_id = ''u++++'', url = [], prompt = []\<rparr>
   \<and> mode (handleSlotSelect backToFirst ''u++'' ''u++++''
             (handlePanelSelect backToFirst ''u++'' backToFirst)) = CREATE
   \<and> mode (slotClick ''u++'' ''u++++'' backToFirst) = EDIT
   \<and> activeSlotId (slotClick ''u++'' ''u++++'' backToFirst) = Some ''u++++''"
  by (simp add: slotClick_def toolboxEffect_def handleSlotSelect_def handlePanelSelect_def
        selectedPanel_def backToFirst_fields firstPanel_def secondPanel_def doublePanel_def
        emptySlot_def Let_def)

section \<open>The slot count in runs without a pending request\<close>

lemma wellFormed_mono:
  assumes "wellFormed gen ps n" and "n \<le> n'"
  shows "wellFormed gen ps n'"
proof -
  have "\<exists>k<n'. panel_id p = gen k" if "p \<in> set ps" for p
  proof -
    from assms(1) that obtain k where "k < n" "panel_id p = gen k"
      by (auto simp: wellFormed_def)
    with assms(2) show ?thesis by (intro exI [of _ k]) simp
  qed
  with assms(1) show ?thesis by (simp add: wellFormed_def)
qed

lemma wellFormed_filter: "wellFormed gen ps n \<Longrightarrow> wellFormed gen (filter P ps) n"
  by (auto simp: wellFormed_def slotsMatchLayout_def distinct_map_filter)

text \<open>A field replacement that keeps identifier, layout and number of slots.\<close>

lemma wellFormed_map:
  assumes wf: "wellFormed gen ps n"
    and ids: "\<And>p. p \<in> set ps \<Longrightarrow> panel_id (f p) = panel_id p"
    and len: "\<And>p. p \<in> set ps \<Longrightarrow> length (images p) = slotCount (splitLayout p) \<Longrightarrow>
           length (images (f p)) = slotCount (splitLayout (f p))"
  shows "wellFormed gen (map f ps) n"
proof -
  have same: "map panel_id (map f ps) = map panel_id ps"
    using ids by simp
  have "slotsMatchLayout (map f ps)"
    using wf len by (auto simp: wellFormed_def slotsMatchLayout_def)
  moreover have "distinct (map panel_id (map f ps))"
    using wf by (simp only: same) (simp add: wellFormed_def)
  moreover have "\<forall>p\<in>set (map f ps). \<exists>k<n. panel_id p = gen k"
    using wf ids by (auto simp: wellFormed_def)
  ultimately show ?thesis by (simp only: wellFormed_def)
qed

text \<open>
  Writing a slot list of the right length into the panels with the identifier of a panel of
  the list: the identifiers are distinct, so that panel is the only one.
\<close>

lemma wellFormed_fill:
  assumes wf: "wellFormed gen ps n" and "panel \<in> set ps"
    and "length updatedImages = length (images panel)"
  shows "wellFormed gen
           (map (\<lambda>p. if panel_id p = panel_id panel then p\<lparr>images := updatedImages\<rparr> else p) ps) n"
proof (rule wellFormed_map [OF wf])
  fix p assume p: "p \<in> set ps"
  show "panel_id (if panel_id p = panel_id panel then p\<lparr>images := updatedImages\<rparr> else p)
          = panel_id p"
    by simp
  assume len: "length (images p) = slotCount (splitLayout p)"
  have "inj_on panel_id (set ps)"
    using wf by (simp add: wellFormed_def distinct_map)
  then have "p = panel" if "panel_id p = panel_id panel"
    using that p assms(2) by (auto dest: inj_onD)
  then show "length (images (if panel_id p = panel_id panel then p\<lparr>images := updatedImages\<rparr> else p))
      = slotCount (splitLayout (if panel_id p = panel_id panel then p\<lparr>images := updatedImages\<rparr> else p))"
    using len assms(3) by auto
qed

lemma wellFormed_new_panel:
  assumes "inj gen" and wf: "wellFormed gen ps n"
    and "panel_id q = gen n" and "length (images q) = slotCount (splitLayout q)"
  shows "wellFormed gen (ps @ [q]) (n + 2)"
proof -
  have fresh: "gen n \<notin> panel_id ` set ps"
  proof
    assume "gen n \<in> panel_id ` set ps"
    then obtain p where "p \<in> set ps" "panel_id p = gen n" by auto
    with wf obtain k where "k < n" "gen k = gen n" by (auto simp: wellFormed_def)
    with \<open>inj gen\<close> show False by (auto dest: injD)
  qed
  have wf2: "wellFormed gen ps (n + 2)"
    using wf by (rule wellFormed_mono) simp
  have "\<exists>k<n + 2. panel_id q = gen k"
    using assms(3) by (intro exI [of _ n]) simp
  with wf2 fresh assms(3,4) show ?thesis
    by (auto simp: wellFormed_def slotsMatchLayout_def)
qed

text \<open>The panels and the number of identifiers drawn after a whole call.\<close>

lemma handleGenerate_panels:
  "(panels (handleGenerate gen prompt' style sketchBase64 sdk st),
    uuidCount (handleGenerate gen prompt' style sketchBase64 sdk st)) =
     (case handleGenerate_await sketchBase64 sdk of
        Inl e \<Rightarrow> (panels st, uuidCount st)
      | Inr imageUrl \<Rightarrow>
          if truthy (selectedPanelId st) \<and> truthy (activeSlotId st)
          then
            (case find (\<lambda>p. Some (panel_id p) = selectedPanelId st) (panels st) of
               None \<Rightarrow> (panels st, uuidCount st)
             | Some panel \<Rightarrow>
                 (map (\<lambda>p. if Some (panel_id p) = selectedPanelId st
                           then p\<lparr>images :=
                                  map (\<lambda>img. if Some (img_id img) = activeSlotId st
                                              then img\<lparr>url := imageUrl, prompt := prompt'\<rparr>
                                              else img)
                                      (images panel)\<rparr>
                           else p)
                      (panels st),
                  uuidCount st))
          else
            (panels st
               @ [\<lparr>panel_id = gen (uuidCount st),
                   images = [\<lparr>img_id = gen (Suc (uuidCount st)), url = imageUrl,
                              prompt = prompt'\<rparr>],
                   splitLayout = SINGLE, caption = [], aspectRatio = AR_1_1, colSpan = 1,
                   overlayType = NONE\<rparr>],
             uuidCount st + 2))"
  by (simp add: handleGenerate_def handleGenerate_finish_def handleGenerate_start_def
        handleGenerate_apply_def Let_def split: sum.splits option.splits)

lemma handleEdit_panels:
  "(panels (handleEdit editPrompt sdk st), uuidCount (handleEdit editPrompt sdk st)) =
     (case handleEdit_guard st of
        EditTarget sp activeImage \<Rightarrow>
          (case editComicImage (generateContent sdk) of
             Inl e \<Rightarrow> (panels st, uuidCount st)
           | Inr newImageUrl \<Rightarrow>
               (map (\<lambda>p. if panel_id p = panel_id sp
                         then p\<lparr>images :=
                                map (\<lambda>img. if Some (img_id img) = activeSlotId st
                                            then img\<lparr>url := newImageUrl\<rparr> else img)
                                    (images sp)\<rparr>
                         else p)
                    (panels st),
                uuidCount st))
      | _ \<Rightarrow> (panels st, uuidCount st))"
  by (simp add: handleEdit_def handleEdit_start_def handleEdit_finish_def Let_def
        split: EditGuard.splits sum.splits)

lemma handleGenerate_wellFormed:
  assumes "inj gen" and wf: "wellFormed gen (panels st) (uuidCount st)"
  shows "wellFormed gen (panels (handleGenerate gen prompt' style sketchBase64 sdk st))
           (uuidCount (handleGenerate gen prompt' style sketchBase64 sdk st))"
proof -
  let ?st' = "handleGenerate gen prompt' style sketchBase64 sdk st"
  note eq = handleGenerate_panels [of gen prompt' style sketchBase64 sdk st]
  show ?thesis
  proof (cases "handleGenerate_await sketchBase64 sdk")
    case (Inl e)
    with eq wf show ?thesis by simp
  next
    case (Inr imageUrl)
    show ?thesis
    proof (cases "truthy (selectedPanelId st) \<and> truthy (activeSlotId st)")
      case False
      let ?q = "\<lparr>panel_id = gen (uuidCount st),
                 images = [\<lparr>img_id = gen (Suc (uuidCount st)), url = imageUrl,
                            prompt = prompt'\<rparr>],
                 splitLayout = SINGLE, caption = [], aspectRatio = AR_1_1, colSpan = 1,
                 overlayType = NONE\<rparr>"
      have "wellFormed gen (panels st @ [?q]) (uuidCount st + 2)"
        using assms by (intro wellFormed_new_panel) simp_all
      moreover have "panels ?st' = panels st @ [?q]" "uuidCount ?st' = uuidCount st + 2"
        using eq Inr False by simp_all
      ultimately show ?thesis by simp
    next
      case True
      show ?thesis
      proof (cases "find (\<lambda>p. Some (panel_id p) = selectedPanelId st) (panels st)")
        case None
        with eq Inr True wf show ?thesis by simp
      next
        case (Some panel)
        then have mem: "panel \<in> set (panels st)"
          and sel: "selectedPanelId st = Some (panel_id panel)"
          by (auto simp: find_Some_iff)
        let ?imgs = "map (\<lambda>img. if Some (img_id img) = activeSlotId st
                                 then img\<lparr>url := imageUrl, prompt := prompt'\<rparr> else img)
                         (images panel)"
        have "wellFormed gen
                (map (\<lambda>p. if panel_id p = panel_id panel then p\<lparr>images := ?imgs\<rparr> else p)
                   (panels st))
                (uuidCount st)"
          using wf mem by (rule wellFormed_fill) simp
        moreover have "panels ?st' =
            map (\<lambda>p. if panel_id p = panel_id panel then p\<lparr>images := ?imgs\<rparr> else p) (panels st)"
          "uuidCount ?st' = uuidCount st"
          using eq Inr True Some sel by simp_all
        ultimately show ?thesis by simp
      qed
    qed
  qed
qed

lemma handleEdit_wellFormed:
  assumes wf: "wellFormed gen (panels st) (uuidCount st)"
  shows "wellFormed gen (panels (handleEdit editPrompt sdk st))
           (uuidCount (handleEdit editPrompt sdk st))"
proof -
  let ?st' = "handleEdit editPrompt sdk st"
  note eq = handleEdit_panels [of editPrompt sdk st]
  show ?thesis
  proof (cases "handleEdit_guard st")
    case NothingSelected
    with eq wf show ?thesis by simp
  next
    case NoImageInSlot
    with eq wf show ?thesis by simp
  next
    case (EditTarget sp activeImage)
    then have "selectedPanel st = Some sp"
      by (auto simp: handleEdit_guard_def split: option.splits if_splits)
    then have mem: "sp \<in> set (panels st)"
      by (auto simp: selectedPanel_def find_Some_iff)
    show ?thesis
    proof (cases "editComicImage (generateContent sdk)")
      case (Inl e)
      with eq EditTarget wf show ?thesis by simp
    next
      case (Inr newImageUrl)
      let ?imgs = "map (\<lambda>img. if Some (img_id img) = activeSlotId st
                               then img\<lparr>url := newImageUrl\<rparr> else img) (images sp)"
      have "wellFormed gen
              (map (\<lambda>p. if panel_id p = panel_id sp then p\<lparr>images := ?imgs\<rparr> else p) (panels st))
              (uuidCount st)"
        using wf mem by (rule wellFormed_fill) simp
      moreover have "panels ?st' =
          map (\<lambda>p. if panel_id p = panel_id sp then p\<lparr>images := ?imgs\<rparr> else p) (panels st)"
        "uuidCount ?st' = uuidCount st"
        using eq EditTarget Inr by simp_all
      ultimately show ?thesis by simp
    qed
  qed
qed

lemma mapPanels_ids:
  assumes "\<And>p k. panel_id (fst (f p k)) = panel_id p"
  shows "map panel_id (fst (mapPanels f ps n)) = map panel_id ps"
  using assms by (induction ps arbitrary: n) (simp_all add: mapPanels_Cons del: mapPanels.simps(2))

lemma handleChangeSplitLayout_wellFormed:
  assumes wf: "wellFormed gen (panels st) (uuidCount st)"
  shows "wellFormed gen (panels (handleChangeSplitLayout gen panelId newLayout st))
           (uuidCount (handleChangeSplitLayout gen panelId newLayout st))"
proof -
  let ?f = "changeSplitLayoutOf gen panelId newLayout"
  let ?st' = "handleChangeSplitLayout gen panelId newLayout st"
  have ids: "map panel_id (panels ?st') = map panel_id (panels st)"
    by (simp add: handleChangeSplitLayout_fields mapPanels_ids changeSplitLayoutOf_id)
  have le: "uuidCount st \<le> uuidCount ?st'"
    by (simp add: handleChangeSplitLayout_fields mapPanels_mono changeSplitLayoutOf_mono)
  have "length (images p') = slotCount (splitLayout p')" if p': "p' \<in> set (panels ?st')" for p'
  proof (cases "panel_id p' = panelId")
    case True
    with handleChangeSplitLayout_target [OF p'] show ?thesis
      by (simp add: targetCount_slotCount)
  next
    case False
    from p' obtain q m where q: "q \<in> set (panels st)" "p' = fst (?f q m)"
      using mapPanels_set by (fastforce simp: handleChangeSplitLayout_fields)
    with False have "panel_id q \<noteq> panelId" by (simp add: changeSplitLayoutOf_id)
    then have "p' = q" using q(2) by (simp add: changeSplitLayoutOf_other)
    with q(1) wf show ?thesis by (simp add: wellFormed_def slotsMatchLayout_def)
  qed
  moreover have "distinct (map panel_id (panels ?st'))"
    using wf ids by (simp add: wellFormed_def)
  moreover have "\<exists>k<uuidCount ?st'. panel_id p' = gen k" if "p' \<in> set (panels ?st')" for p'
  proof -
    from that have "panel_id p' \<in> set (map panel_id (panels st))"
      using ids by (metis image_eqI set_map)
    then obtain q where "q \<in> set (panels st)" "panel_id q = panel_id p'" by auto
    with wf obtain k where "k < uuidCount st" "panel_id p' = gen k"
      by (auto simp: wellFormed_def)
    with le show ?thesis by (intro exI [of _ k]) simp
  qed
  ultimately show ?thesis by (simp add: wellFormed_def slotsMatchLayout_def)
qed

lemma initialState_wellFormed: "wellFormed gen (panels initialState) (uuidCount initialState)"
  by (simp add: initialState_def wellFormed_def slotsMatchLayout_def)

text \<open>
  In a run in which no event falls between a request and its answer, every panel has the
  slot count of its layout, for a source of identifiers that never repeats.
\<close>

lemma reachable_wellFormed:
  assumes "inj gen" and "reachable gen st"
  shows "wellFormed gen (panels st) (uuidCount st)"
  using assms(2)
proof (induction rule: reachable.induct)
  case initial
  show ?case by (rule initialState_wellFormed)
next
  case (generate st prompt' style sketchBase64 sdk)
  then show ?case
    by (simp add: toolboxEffect_frame handleGenerate_wellFormed [OF assms(1)])
next
  case (edit st editPrompt sdk)
  then show ?case by (simp add: toolboxEffect_frame handleEdit_wellFormed)
next
  case (panel_click st panelId)
  then show ?case
    by (simp add: panelClick_def toolboxEffect_frame handlePanelSelect_frame)
next
  case (slot_click st panelId imageId)
  then show ?case
    by (simp add: slotClick_frame)
next
  case (caption st panelId caption')
  then show ?case
    by (simp add: toolboxEffect_frame handleUpdateCaption_def wellFormed_map)
next
  case (overlay st panelId type')
  then show ?case
    by (simp add: toolboxEffect_frame handleToggleOverlay_def wellFormed_map)
next
  case (span st panelId n)
  then show ?case
    by (simp add: toolboxEffect_frame handleUpdatePanelSpan_def wellFormed_map)
next
  case (delete st panelId)
  then show ?case
    by (simp add: toolboxEffect_frame handleDeletePanel_def Let_def wellFormed_filter)
next
  case (layout st panelId newLayout)
  then show ?case
    by (simp add: toolboxEffect_frame handleChangeSplitLayout_wellFormed)
next
  case (add_character st)
  then show ?case
    by (simp add: toolboxEffect_frame handleAddCharacter_def wellFormed_mono)
qed (simp_all add: toolboxEffect_frame setMode_def setGridLayout_def setGutterSize_def
       handleUpdateCharacter_def handleRemoveCharacter_def)

lemma reachable_slot_count:
  assumes "inj gen" and "reachable gen st" and "p \<in> set (panels st)"
  shows "length (images p) = slotCount (splitLayout p)"
  using reachable_wellFormed [OF assms(1,2)] assms(3)
  by (simp add: wellFormed_def slotsMatchLayout_def)

section \<open>A layout change during a pending request\<close>

text \<open>
  The continuation of \<open>handleGenerate\<close> takes the slot list from the panels of its
  closure and writes it into the panel of the store.
\<close>

lemma handleGenerate_finish_fill:
  assumes "truthy (selectedPanelId cl)" and "truthy (activeSlotId cl)"
    and "find (\<lambda>p. Some (panel_id p) = selectedPanelId cl) (panels cl) = Some panel"
  shows "panels (handleGenerate_finish gen cl prompt' (Inr imageUrl) st) =
           map (\<lambda>p. if Some (panel_id p) = selectedPanelId cl
                     then p\<lparr>images :=
                            map (\<lambda>img. if Some (img_id img) = activeSlotId cl
                                        then img\<lparr>url := imageUrl, prompt := prompt'\<rparr> else img)
                                (images panel)\<rparr>
                     else p)
               (panels st)"
  using assms by (simp add: handleGenerate_finish_def handleGenerate_apply_def)

text \<open>The continuation of \<open>handleEdit\<close> does the same with the selected panel of its closure.\<close>

lemma handleEdit_finish_fill:
  assumes "handleEdit_guard cl = EditTarget sp activeImage"
  shows "panels (handleEdit_finish cl (Inr newImageUrl) st) =
           map (\<lambda>p. if panel_id p = panel_id sp
                     then p\<lparr>images :=
                            map (\<lambda>img. if Some (img_id img) = activeSlotId cl
                                        then img\<lparr>url := newImageUrl\<rparr> else img)
                                (images sp)\<rparr>
                     else p)
               (panels st)"
  using assms by (simp add: handleEdit_finish_def)

text \<open>
  C3. Every panel is to have the slot count of its layout in every state that the handlers
  reach from the empty store. It does not in the state \<open>staleFill\<close>. From the empty
  store: a panel is generated, its slot is clicked, the Create tab is opened and the prompt
  \<open>rain\<close> is submitted; while the request is pending the panel is given the layout QUAD,
  which gives it four slots; then the gateway answers. The continuation of
  \<open>handleGenerate\<close> writes the one-slot list of its closure into the panel, which keeps
  the layout QUAD: one slot where the layout asks for four.
\<close>

theorem stale_fill_breaks_slot_count:
  "panels changedWhilePending = [quadPanel]
   \<and> length (images quadPanel) = slotCount (splitLayout quadPanel)
   \<and> panels staleFill =
       [\<lparr>panel_id = ''u'',
         images = [\<lparr>img_id = ''u+'', url = ''data:image/jpeg;base64,QUJD'', prompt = ''rain''\<rparr>],
         splitLayout = QUAD, caption = [], aspectRatio = AR_1_1, colSpan = 1,
         overlayType = NONE\<rparr>]
   \<and> length (images (hd (panels staleFill))) = 1
   \<and> slotCount (splitLayout (hd (panels staleFill))) = 4"
  by (simp add: staleFill_def handleGenerate_finish_def handleGenerate_apply_def await_sdkImage
        selectedOne_fields changedWhilePending_fields firstPanel_def quadPanel_def)

lemma staleFill_slots_mismatch: "\<not> slotsMatchLayout (panels staleFill)"
  by (simp add: staleFill_def handleGenerate_finish_def handleGenerate_apply_def await_sdkImage
        selectedOne_fields changedWhilePending_fields firstPanel_def quadPanel_def
        slotsMatchLayout_def)

section \<open>A pending request after a layout change that drops slots\<close>

lemma quadSelected_fields:
  "panels quadSelected = [quadPanel]"
  "selectedPanelId quadSelected = Some ''u''" "activeSlotId quadSelected = Some ''u+''"
  "mode quadSelected = EDIT" "uuidCount quadSelected = 5" "characters quadSelected = []"
  by (simp_all add: quadSelected_def handleChangeSplitLayout_def changeSplitLayoutOf_def
        slotClick_def toolboxEffect_def handleSlotSelect_def handlePanelSelect_def
        selectedPanel_def onePanel_fields targetCount_def testUuid_values firstPanel_def
        quadPanel_def Let_def pushEmptySlots_eq upt_conv_Cons)

lemma secondSlotFilled_fields:
  "panels secondSlotFilled =
     [quadPanel\<lparr>images := [hd (images firstPanel), bridgeSlot, emptySlot ''u+++'',
                            emptySlot ''u++++'']\<rparr>]"
  "selectedPanelId secondSlotFilled = Some ''u''" "activeSlotId secondSlotFilled = Some ''u++''"
  "mode secondSlotFilled = CREATE" "uuidCount secondSlotFilled = 5"
  by (simp_all add: secondSlotFilled_def handleGenerate_def handleGenerate_finish_def
        handleGenerate_apply_def handleGenerate_start_def await_sdkImage slotClick_def
        toolboxEffect_def handleSlotSelect_def handlePanelSelect_def selectedPanel_def
        quadSelected_fields testUuid_values firstPanel_def quadPanel_def bridgeSlot_def
        emptySlot_def Let_def)

lemma shrunkWhilePending_fields:
  "panels shrunkWhilePending = [firstPanel]"
  "uuidCount shrunkWhilePending = 5"
  by (simp_all add: shrunkWhilePending_def handleChangeSplitLayout_def changeSplitLayoutOf_def
        setMode_def handleGenerate_start_def secondSlotFilled_fields targetCount_def
        testUuid_values firstPanel_def quadPanel_def Let_def)

text \<open>
  C2. Slots that a layout change drops are to be discarded for good, the first \<open>N\<close> being
  kept. They are not in the run that ends in \<open>droppedSlotsBack\<close>. The panel has the layout
  QUAD and four slots, the second one filled; a new image is asked for that slot, and while
  the request is pending the panel is given the layout SINGLE. The layout change keeps the
  first slot and drops the three others, as it should. Then the gateway answers, and the
  continuation of \<open>handleGenerate\<close> writes the four-slot list of its closure into the
  panel: the three dropped slots are back, the second one with content, in a panel whose
  layout is SINGLE.
\<close>

theorem dropped_slots_come_back:
  "panels secondSlotFilled =
     [quadPanel\<lparr>images := [hd (images firstPanel), bridgeSlot, emptySlot ''u+++'',
                            emptySlot ''u++++'']\<rparr>]
   \<and> panels shrunkWhilePending = [firstPanel]
   \<and> panels droppedSlotsBack =
       [firstPanel\<lparr>images := [hd (images firstPanel), rainSlot, emptySlot ''u+++'',
                               emptySlot ''u++++'']\<rparr>]
   \<and> splitLayout (hd (panels droppedSlotsBack)) = SINGLE
   \<and> length (images (hd (panels droppedSlotsBack))) = 4"
  by (simp add: droppedSlotsBack_def handleGenerate_finish_def handleGenerate_apply_def
        await_sdkImage secondSlotFilled_fields shrunkWhilePending_fields firstPanel_def
        quadPanel_def bridgeSlot_def rainSlot_def emptySlot_def)


end
